theory Spec2Isabelle
  imports Main "HOL-Library.Log_Nat"
begin

section \<open>E-waste analysis script: data model\<close>

text \<open>
  The script is one Python module. Its four enumerations are string-valued
  \<^verbatim>\<open>class X(str, Enum)\<close> classes: every member has a name and a value.
  Each is modelled by a datatype with one constructor per member, the tables of
  names and values, and the list of members in definition order, which is the
  order in which Python iterates over the class.

  Strings are lists of bytes: a Python string is modelled by its UTF-8 encoding,
  so the characters of the module outside ASCII appear as the bytes of the
  source file.
\<close>

subsection \<open>Enumerations\<close>

datatype ObjectCategory =
    SMARTPHONE
  | TABLET
  | LAPTOP
  | DESKTOP_COMPUTER
  | MONITOR
  | TELEVISION
  | GAMING_CONSOLE
  | SMARTWATCH
  | EARBUDS
  | CAMERA
  | CIRCUIT_BOARD
  | HARD_DRIVE
  | RAM
  | PROCESSOR
  | GRAPHICS_CARD
  | POWER_SUPPLY
  | SSD
  | MOTHERBOARD
  | LITHIUM_BATTERY
  | ALKALINE_BATTERY
  | LEAD_ACID_BATTERY
  | BUTTON_BATTERY
  | LAPTOP_BATTERY
  | PHONE_BATTERY
  | CABLES
  | CHARGER
  | KEYBOARD
  | MOUSE
  | USB_DEVICE
  | PRINTER
  | SCANNER
  | ROUTER
  | SPEAKER
  | MICROWAVE
  | MIXED_EWASTE
  | UNKNOWN

fun ObjectCategory_name :: "ObjectCategory \<Rightarrow> string" where
  "ObjectCategory_name SMARTPHONE = ''SMARTPHONE''"
| "ObjectCategory_name TABLET = ''TABLET''"
| "ObjectCategory_name LAPTOP = ''LAPTOP''"
| "ObjectCategory_name DESKTOP_COMPUTER = ''DESKTOP_COMPUTER''"
| "ObjectCategory_name MONITOR = ''MONITOR''"
| "ObjectCategory_name TELEVISION = ''TELEVISION''"
| "ObjectCategory_name GAMING_CONSOLE = ''GAMING_CONSOLE''"
| "ObjectCategory_name SMARTWATCH = ''SMARTWATCH''"
| "ObjectCategory_name EARBUDS = ''EARBUDS''"
| "ObjectCategory_name CAMERA = ''CAMERA''"
| "ObjectCategory_name CIRCUIT_BOARD = ''CIRCUIT_BOARD''"
| "ObjectCategory_name HARD_DRIVE = ''HARD_DRIVE''"
| "ObjectCategory_name RAM = ''RAM''"
| "ObjectCategory_name PROCESSOR = ''PROCESSOR''"
| "ObjectCategory_name GRAPHICS_CARD = ''GRAPHICS_CARD''"
| "ObjectCategory_name POWER_SUPPLY = ''POWER_SUPPLY''"
| "ObjectCategory_name SSD = ''SSD''"
| "ObjectCategory_name MOTHERBOARD = ''MOTHERBOARD''"
| "ObjectCategory_name LITHIUM_BATTERY = ''LITHIUM_BATTERY''"
| "ObjectCategory_name ALKALINE_BATTERY = ''ALKALINE_BATTERY''"
| "ObjectCategory_name LEAD_ACID_BATTERY = ''LEAD_ACID_BATTERY''"
| "ObjectCategory_name BUTTON_BATTERY = ''BUTTON_BATTERY''"
| "ObjectCategory_name LAPTOP_BATTERY = ''LAPTOP_BATTERY''"
| "ObjectCategory_name PHONE_BATTERY = ''PHONE_BATTERY''"
| "ObjectCategory_name CABLES = ''CABLES''"
| "ObjectCategory_name CHARGER = ''CHARGER''"
| "ObjectCategory_name KEYBOARD = ''KEYBOARD''"
| "ObjectCategory_name MOUSE = ''MOUSE''"
| "ObjectCategory_name USB_DEVICE = ''USB_DEVICE''"
| "ObjectCategory_name PRINTER = ''PRINTER''"
| "ObjectCategory_name SCANNER = ''SCANNER''"
| "ObjectCategory_name ROUTER = ''ROUTER''"
| "ObjectCategory_name SPEAKER = ''SPEAKER''"
| "ObjectCategory_name MICROWAVE = ''MICROWAVE''"
| "ObjectCategory_name MIXED_EWASTE = ''MIXED_EWASTE''"
| "ObjectCategory_name UNKNOWN = ''UNKNOWN''"

fun ObjectCategory_value :: "ObjectCategory \<Rightarrow> string" where
  "ObjectCategory_value SMARTPHONE = ''Smartphone''"
| "ObjectCategory_value TABLET = ''Tablet''"
| "ObjectCategory_value LAPTOP = ''Laptop''"
| "ObjectCategory_value DESKTOP_COMPUTER = ''Desktop Computer''"
| "ObjectCategory_value MONITOR = ''Monitor''"
| "ObjectCategory_value TELEVISION = ''Television''"
| "ObjectCategory_value GAMING_CONSOLE = ''Gaming Console''"
| "ObjectCategory_value SMARTWATCH = ''Smartwatch''"
| "ObjectCategory_value EARBUDS = ''Earbuds/Headphones''"
| "ObjectCategory_value CAMERA = ''Digital Camera''"
| "ObjectCategory_value CIRCUIT_BOARD = ''Circuit Board''"
| "ObjectCategory_value HARD_DRIVE = ''Hard Drive''"
| "ObjectCategory_value RAM = ''RAM Module''"
| "ObjectCategory_value PROCESSOR = ''CPU/Processor''"
| "ObjectCategory_value GRAPHICS_CARD = ''Graphics Card''"
| "ObjectCategory_value POWER_SUPPLY = ''Power Supply Unit''"
| "ObjectCategory_value SSD = ''Solid State Drive''"
| "ObjectCategory_value MOTHERBOARD = ''Motherboard''"
| "ObjectCategory_value LITHIUM_BATTERY = ''Lithium-ion Battery''"
| "ObjectCategory_value ALKALINE_BATTERY = ''Alkaline Battery''"
| "ObjectCategory_value LEAD_ACID_BATTERY = ''Lead-acid Battery''"
| "ObjectCategory_value BUTTON_BATTERY = ''Button Cell Battery''"
| "ObjectCategory_value LAPTOP_BATTERY = ''Laptop Battery Pack''"
| "ObjectCategory_value PHONE_BATTERY = ''Phone Battery''"
| "ObjectCategory_value CABLES = ''Cables/Wires''"
| "ObjectCategory_value CHARGER = ''Charger/Adapter''"
| "ObjectCategory_value KEYBOARD = ''Keyboard''"
| "ObjectCategory_value MOUSE = ''Mouse''"
| "ObjectCategory_value USB_DEVICE = ''USB Device/Flash Drive''"
| "ObjectCategory_value PRINTER = ''Printer''"
| "ObjectCategory_value SCANNER = ''Scanner''"
| "ObjectCategory_value ROUTER = ''Router/Modem''"
| "ObjectCategory_value SPEAKER = ''Speaker System''"
| "ObjectCategory_value MICROWAVE = ''Microwave''"
| "ObjectCategory_value MIXED_EWASTE = ''Mixed E-waste''"
| "ObjectCategory_value UNKNOWN = ''Unknown Device''"

definition ObjectCategory_members :: "ObjectCategory list" where
  "ObjectCategory_members =
   [SMARTPHONE, TABLET, LAPTOP, DESKTOP_COMPUTER, MONITOR, TELEVISION, GAMING_CONSOLE,
    SMARTWATCH, EARBUDS, CAMERA, CIRCUIT_BOARD, HARD_DRIVE, RAM, PROCESSOR,
    GRAPHICS_CARD, POWER_SUPPLY, SSD, MOTHERBOARD, LITHIUM_BATTERY, ALKALINE_BATTERY,
    LEAD_ACID_BATTERY, BUTTON_BATTERY, LAPTOP_BATTERY, PHONE_BATTERY, CABLES, CHARGER,
    KEYBOARD, MOUSE, USB_DEVICE, PRINTER, SCANNER, ROUTER, SPEAKER, MICROWAVE,
    MIXED_EWASTE, UNKNOWN]"

datatype ConditionStatus =
    INTACT
  | BROKEN
  | PARTIALLY_DAMAGED
  | SEVERELY_DAMAGED
  | BURNED
  | WATER_DAMAGED

fun ConditionStatus_name :: "ConditionStatus \<Rightarrow> string" where
  "ConditionStatus_name INTACT = ''INTACT''"
| "ConditionStatus_name BROKEN = ''BROKEN''"
| "ConditionStatus_name PARTIALLY_DAMAGED = ''PARTIALLY_DAMAGED''"
| "ConditionStatus_name SEVERELY_DAMAGED = ''SEVERELY_DAMAGED''"
| "ConditionStatus_name BURNED = ''BURNED''"
| "ConditionStatus_name WATER_DAMAGED = ''WATER_DAMAGED''"

fun ConditionStatus_value :: "ConditionStatus \<Rightarrow> string" where
  "ConditionStatus_value INTACT = ''Intact''"
| "ConditionStatus_value BROKEN = ''Broken''"
| "ConditionStatus_value PARTIALLY_DAMAGED = ''Partially Damaged''"
| "ConditionStatus_value SEVERELY_DAMAGED = ''Severely Damaged''"
| "ConditionStatus_value BURNED = ''Burned/Melted''"
| "ConditionStatus_value WATER_DAMAGED = ''Water Damaged''"

definition ConditionStatus_members :: "ConditionStatus list" where
  "ConditionStatus_members =
   [INTACT, BROKEN, PARTIALLY_DAMAGED, SEVERELY_DAMAGED, BURNED, WATER_DAMAGED]"

datatype ShredSafety =
    SAFE_TO_SHRED
  | DO_NOT_SHRED
  | REQUIRES_PREPROCESSING

fun ShredSafety_name :: "ShredSafety \<Rightarrow> string" where
  "ShredSafety_name SAFE_TO_SHRED = ''SAFE_TO_SHRED''"
| "ShredSafety_name DO_NOT_SHRED = ''DO_NOT_SHRED''"
| "ShredSafety_name REQUIRES_PREPROCESSING = ''REQUIRES_PREPROCESSING''"

fun ShredSafety_value :: "ShredSafety \<Rightarrow> string" where
  "ShredSafety_value SAFE_TO_SHRED = ''Safe to Shred''"
| "ShredSafety_value DO_NOT_SHRED = ''Do Not Shred''"
| "ShredSafety_value REQUIRES_PREPROCESSING = ''Requires Preprocessing Before Shredding''"

definition ShredSafety_members :: "ShredSafety list" where
  "ShredSafety_members =
   [SAFE_TO_SHRED, DO_NOT_SHRED, REQUIRES_PREPROCESSING]"

datatype ProcessingMethod =
    SHRED
  | MANUAL_DISASSEMBLY
  | BATTERY_REMOVAL
  | DATA_DESTRUCTION
  | SPECIALIZED_RECYCLING
  | HAZMAT_HANDLING

fun ProcessingMethod_name :: "ProcessingMethod \<Rightarrow> string" where
  "ProcessingMethod_name SHRED = ''SHRED''"
| "ProcessingMethod_name MANUAL_DISASSEMBLY = ''MANUAL_DISASSEMBLY''"
| "ProcessingMethod_name BATTERY_REMOVAL = ''BATTERY_REMOVAL''"
| "ProcessingMethod_name DATA_DESTRUCTION = ''DATA_DESTRUCTION''"
| "ProcessingMethod_name SPECIALIZED_RECYCLING = ''SPECIALIZED_RECYCLING''"
| "ProcessingMethod_name HAZMAT_HANDLING = ''HAZMAT_HANDLING''"

fun ProcessingMethod_value :: "ProcessingMethod \<Rightarrow> string" where
  "ProcessingMethod_value SHRED = ''Shred''"
| "ProcessingMethod_value MANUAL_DISASSEMBLY = ''Manual Disassembly''"
| "ProcessingMethod_value BATTERY_REMOVAL = ''Battery Removal Required''"
| "ProcessingMethod_value DATA_DESTRUCTION = ''Data Destruction Required''"
| "ProcessingMethod_value SPECIALIZED_RECYCLING = ''Specialized Recycling''"
| "ProcessingMethod_value HAZMAT_HANDLING = ''Hazardous Material Handling''"

definition ProcessingMethod_members :: "ProcessingMethod list" where
  "ProcessingMethod_members =
   [SHRED, MANUAL_DISASSEMBLY, BATTERY_REMOVAL, DATA_DESTRUCTION, SPECIALIZED_RECYCLING,
    HAZMAT_HANDLING]"

text \<open>
  Construction of a member from a value, \<^verbatim>\<open>X(v)\<close>: the first member in
  definition order whose value is \<open>v\<close>, if there is one.
\<close>

definition enum_of_value :: "('e \<Rightarrow> string) \<Rightarrow> 'e list \<Rightarrow> string \<Rightarrow> 'e option" where
  "enum_of_value val members s = find (\<lambda>e. val e = s) members"

subsection \<open>Python floats\<close>

text \<open>
  A Python \<^verbatim>\<open>float\<close> is an IEEE 754 binary64 number. A finite nonzero one is
  the rational it denotes; the negative zero, the two infinities and the
  not-a-number are values of their own. \<open>Fin 0\<close> is the positive zero.
\<close>

datatype pyfloat = Fin rat | NegZero | PosInf | NegInf | NaN

definition pow2 :: "int \<Rightarrow> rat" where
  "pow2 e = (if 0 \<le> e then 2 ^ nat e else 1 / 2 ^ nat (- e))"

text \<open>Rounding to the nearest integer, ties to the even one.\<close>

definition round_half_even :: "rat \<Rightarrow> int" where
  "round_half_even x =
     (let f = \<lfloor>x\<rfloor>; d = x - of_int f
      in if d < 1 / 2 then f
         else if 1 / 2 < d then f + 1
         else if even f then f else f + 1)"

text \<open>For \<open>0 < a\<close>, the exponent \<open>e\<close> with \<open>2 ^ e \<le> a < 2 ^ (e + 1)\<close>.\<close>

definition floor_log2 :: "rat \<Rightarrow> int" where
  "floor_log2 a =
     (let e = bitlen (fst (quotient_of a)) - bitlen (snd (quotient_of a))
      in if pow2 e \<le> a then e else e - 1)"

text \<open>
  Rounding of a rational to binary64, to nearest with ties to even: 53 bits of
  significand, exponents of the last place from \<open>-1074\<close> (subnormal numbers),
  overflow to an infinity from \<open>2 ^ 1024\<close>, and a signed zero on underflow.
\<close>

definition round_double :: "rat \<Rightarrow> pyfloat" where
  "round_double q =
     (if q = 0 then Fin 0
      else
        let a = \<bar>q\<bar>;
            e = max (floor_log2 a - 52) (- 1074);
            r = of_int (round_half_even (a / pow2 e)) * pow2 e
        in if pow2 1024 \<le> r then (if q < 0 then NegInf else PosInf)
           else if r = 0 then (if q < 0 then NegZero else Fin 0)
           else Fin (if q < 0 then - r else r))"

text \<open>A decimal literal such as \<^verbatim>\<open>0.87\<close> denotes the double nearest to it.\<close>

definition float_literal :: "rat \<Rightarrow> pyfloat" where
  "float_literal q = round_double q"

text \<open>The product \<^verbatim>\<open>x * 100\<close> of a float with the integer constant.\<close>

fun float_times_100 :: "pyfloat \<Rightarrow> pyfloat" where
  "float_times_100 (Fin q) = round_double (q * 100)"
| "float_times_100 NegZero = NegZero"
| "float_times_100 PosInf = PosInf"
| "float_times_100 NegInf = NegInf"
| "float_times_100 NaN = NaN"

subsection \<open>Decimal output\<close>

definition digit_char :: "nat \<Rightarrow> char" where
  "digit_char d = ''0123456789'' ! (d mod 10)"

function show_nat :: "nat \<Rightarrow> string" where
  "show_nat n = (if n < 10 then [digit_char n] else show_nat (n div 10) @ [digit_char (n mod 10)])"
  by pat_completeness auto
termination
  by (relation "measure (\<lambda>n. n)") auto

declare show_nat.simps [simp del]

text \<open>\<^verbatim>\<open>str.zfill\<close>: zeros on the left up to the width.\<close>

definition zfill :: "nat \<Rightarrow> string \<Rightarrow> string" where
  "zfill w s = replicate (w - length s) (CHR ''0'') @ s"

text \<open>
  The format \<^verbatim>\<open>.1f\<close> of a nonnegative finite value: the decimal with one
  digit after the point nearest to the exact value, ties to even.
\<close>

definition format_fixed1 :: "rat \<Rightarrow> string" where
  "format_fixed1 a =
     (let n = nat (round_half_even (a * 10))
      in show_nat (n div 10) @ ''.'' @ show_nat (n mod 10))"

text \<open>
  The format \<^verbatim>\<open>.1%\<close>: the float is multiplied by 100 (a float product),
  printed in fixed notation with one digit after the point, and followed by a
  percent sign.
\<close>

definition format_percent1 :: "pyfloat \<Rightarrow> string" where
  "format_percent1 x =
     (case float_times_100 x of
        Fin v \<Rightarrow> (if v < 0 then ''-'' else []) @ format_fixed1 \<bar>v\<bar> @ ''%''
      | NegZero \<Rightarrow> ''-0.0%''
      | PosInf \<Rightarrow> ''inf%''
      | NegInf \<Rightarrow> ''-inf%''
      | NaN \<Rightarrow> ''nan%'')"

subsection \<open>Values read from JSON\<close>

text \<open>
  The values that \<^verbatim>\<open>json.loads\<close> returns: \<^verbatim>\<open>None\<close>, booleans, integers
  (unbounded), floats, strings, lists, and dictionaries with string keys. A
  dictionary is an association list, read with \<open>map_of\<close>. The dictionary
  literal of the schema builder is a value of the same type.
\<close>

datatype json =
    JNull
  | JBool bool
  | JInt int
  | JFloat pyfloat
  | JStr string
  | JArr "json list"
  | JObj "(string \<times> json) list"

subsection \<open>Errors\<close>

datatype issue = Field_required | Input_invalid

datatype error =
    ValidationError string issue
  | TypeError
  | OverflowError
  | OSError
  | RequestError

subsection \<open>The pydantic models\<close>

record HazardousComponents =
  has_battery :: bool
  has_mercury :: bool
  has_lead :: bool
  has_capacitors :: bool
  has_toner :: bool
  has_data_storage :: bool

record EWasteAnalysis =
  object_type :: ObjectCategory
  brand :: "string option"
  model :: "string option"
  condition :: ConditionStatus
  shred_safety :: ShredSafety
  safety_notes :: "string list"
  primary_processing :: ProcessingMethod
  preprocessing_steps :: "string list"
  processing_notes :: string
  hazardous_components :: HazardousComponents
  disposal_category :: string
  observations :: string
  confidence_score :: pyfloat

text \<open>
  Validation of one field. The argument is the entry of the input dictionary
  under the field's name, \<open>None\<close> when the key is absent. A field declared
  without a default is required; \<^verbatim>\<open>brand\<close> and \<^verbatim>\<open>model\<close> default to
  \<^verbatim>\<open>None\<close>, the two lists to the empty list.

  A value of the field's declared type is taken as it is, and for the float
  field an integer is converted with \<^verbatim>\<open>float\<close>, which rounds to the
  nearest double and fails beyond the range of the doubles. To a value of another
  type pydantic applies the conversions of its lax mode (a boolean field takes the
  integer 1 or the string \<^verbatim>\<open>yes\<close> as true, a float field takes a boolean or
  a numeric string). These conversions belong to the installed library, not to the
  repository: they are a parameter of the model, a table that gives the converted
  value or nothing, and every statement below holds for every such table. Where
  pydantic reports every failing field, the model reports the first in
  declaration order.
\<close>

record conversions =
  to_bool :: "json \<Rightarrow> bool option"
  to_float :: "json \<Rightarrow> pyfloat option"

definition bind_result :: "error + 'a \<Rightarrow> ('a \<Rightarrow> error + 'b) \<Rightarrow> error + 'b" where
  "bind_result r f = (case r of Inl e \<Rightarrow> Inl e | Inr x \<Rightarrow> f x)"

fun validate_enum ::
  "('e \<Rightarrow> string) \<Rightarrow> 'e list \<Rightarrow> string \<Rightarrow> json option \<Rightarrow> error + 'e" where
  "validate_enum val members f None = Inl (ValidationError f Field_required)"
| "validate_enum val members f (Some (JStr s)) =
     (case enum_of_value val members s of
        Some e \<Rightarrow> Inr e
      | None \<Rightarrow> Inl (ValidationError f Input_invalid))"
| "validate_enum val members f (Some _) = Inl (ValidationError f Input_invalid)"

fun validate_str :: "string \<Rightarrow> json option \<Rightarrow> error + string" where
  "validate_str f None = Inl (ValidationError f Field_required)"
| "validate_str f (Some (JStr s)) = Inr s"
| "validate_str f (Some _) = Inl (ValidationError f Input_invalid)"

fun validate_optional_str :: "string \<Rightarrow> json option \<Rightarrow> error + string option" where
  "validate_optional_str f None = Inr None"
| "validate_optional_str f (Some JNull) = Inr None"
| "validate_optional_str f (Some (JStr s)) = Inr (Some s)"
| "validate_optional_str f (Some _) = Inl (ValidationError f Input_invalid)"

fun str_items :: "json list \<Rightarrow> string list option" where
  "str_items [] = Some []"
| "str_items (JStr s # xs) = (case str_items xs of Some ss \<Rightarrow> Some (s # ss) | None \<Rightarrow> None)"
| "str_items (_ # xs) = None"

fun validate_str_list :: "string \<Rightarrow> json option \<Rightarrow> error + string list" where
  "validate_str_list f None = Inr []"
| "validate_str_list f (Some (JArr xs)) =
     (case str_items xs of
        Some ss \<Rightarrow> Inr ss
      | None \<Rightarrow> Inl (ValidationError f Input_invalid))"
| "validate_str_list f (Some _) = Inl (ValidationError f Input_invalid)"

fun validate_bool :: "conversions \<Rightarrow> string \<Rightarrow> json option \<Rightarrow> error + bool" where
  "validate_bool lax f None = Inl (ValidationError f Field_required)"
| "validate_bool lax f (Some (JBool b)) = Inr b"
| "validate_bool lax f (Some v) =
     (case to_bool lax v of
        Some b \<Rightarrow> Inr b
      | None \<Rightarrow> Inl (ValidationError f Input_invalid))"

text \<open>\<^verbatim>\<open>float(n)\<close> for an integer \<open>n\<close>.\<close>

definition float_of_int :: "int \<Rightarrow> error + pyfloat" where
  "float_of_int n =
     (case round_double (of_int n) of
        Fin q \<Rightarrow> Inr (Fin q)
      | _ \<Rightarrow> Inl OverflowError)"

text \<open>
  A float field. An integer that \<^verbatim>\<open>float\<close> cannot convert fails the
  validation of the field (pydantic 2.x; under pydantic 1.x the
  \<^verbatim>\<open>OverflowError\<close> of \<^verbatim>\<open>float\<close> leaves the constructor as it is).
\<close>

fun validate_float :: "conversions \<Rightarrow> string \<Rightarrow> json option \<Rightarrow> error + pyfloat" where
  "validate_float lax f None = Inl (ValidationError f Field_required)"
| "validate_float lax f (Some (JFloat x)) = Inr x"
| "validate_float lax f (Some (JInt n)) =
     (case float_of_int n of
        Inr x \<Rightarrow> Inr x
      | Inl e \<Rightarrow> Inl (ValidationError f Input_invalid))"
| "validate_float lax f (Some v) =
     (case to_float lax v of
        Some x \<Rightarrow> Inr x
      | None \<Rightarrow> Inl (ValidationError f Input_invalid))"

text \<open>\<^verbatim>\<open>HazardousComponents(**d)\<close>: six required booleans.\<close>

definition HazardousComponents_init ::
  "conversions \<Rightarrow> (string \<times> json) list \<Rightarrow> error + HazardousComponents" where
  "HazardousComponents_init lax kv =
     bind_result (validate_bool lax ''has_battery'' (map_of kv ''has_battery'')) (\<lambda>b.
     bind_result (validate_bool lax ''has_mercury'' (map_of kv ''has_mercury'')) (\<lambda>m.
     bind_result (validate_bool lax ''has_lead'' (map_of kv ''has_lead'')) (\<lambda>l.
     bind_result (validate_bool lax ''has_capacitors'' (map_of kv ''has_capacitors'')) (\<lambda>c.
     bind_result (validate_bool lax ''has_toner'' (map_of kv ''has_toner'')) (\<lambda>t.
     bind_result (validate_bool lax ''has_data_storage'' (map_of kv ''has_data_storage'')) (\<lambda>d.
     Inr \<lparr>has_battery = b, has_mercury = m, has_lead = l,
          has_capacitors = c, has_toner = t, has_data_storage = d\<rparr>))))))"

fun validate_hazardous ::
  "conversions \<Rightarrow> string \<Rightarrow> json option \<Rightarrow> error + HazardousComponents" where
  "validate_hazardous lax f None = Inl (ValidationError f Field_required)"
| "validate_hazardous lax f (Some (JObj kv)) = HazardousComponents_init lax kv"
| "validate_hazardous lax f (Some _) = Inl (ValidationError f Input_invalid)"

text \<open>
  \<^verbatim>\<open>EWasteAnalysis(**result_dict)\<close>. Keys that name no field are ignored. A
  value that is not a dictionary cannot be unpacked with \<^verbatim>\<open>**\<close>.
\<close>

definition EWasteAnalysis_fields ::
  "conversions \<Rightarrow> (string \<times> json) list \<Rightarrow> error + EWasteAnalysis" where
  "EWasteAnalysis_fields lax kv =
     bind_result (validate_enum ObjectCategory_value ObjectCategory_members
                    ''object_type'' (map_of kv ''object_type'')) (\<lambda>ot.
     bind_result (validate_optional_str ''brand'' (map_of kv ''brand'')) (\<lambda>br.
     bind_result (validate_optional_str ''model'' (map_of kv ''model'')) (\<lambda>mo.
     bind_result (validate_enum ConditionStatus_value ConditionStatus_members
                    ''condition'' (map_of kv ''condition'')) (\<lambda>co.
     bind_result (validate_enum ShredSafety_value ShredSafety_members
                    ''shred_safety'' (map_of kv ''shred_safety'')) (\<lambda>ss.
     bind_result (validate_str_list ''safety_notes'' (map_of kv ''safety_notes'')) (\<lambda>sn.
     bind_result (validate_enum ProcessingMethod_value ProcessingMethod_members
                    ''primary_processing'' (map_of kv ''primary_processing'')) (\<lambda>pp.
     bind_result (validate_str_list ''preprocessing_steps''
                    (map_of kv ''preprocessing_steps'')) (\<lambda>ps.
     bind_result (validate_str ''processing_notes'' (map_of kv ''processing_notes'')) (\<lambda>pn.
     bind_result (validate_hazardous lax ''hazardous_components''
                    (map_of kv ''hazardous_components'')) (\<lambda>hc.
     bind_result (validate_str ''disposal_category'' (map_of kv ''disposal_category'')) (\<lambda>dc.
     bind_result (validate_str ''observations'' (map_of kv ''observations'')) (\<lambda>ob.
     bind_result (validate_float lax ''confidence_score'' (map_of kv ''confidence_score'')) (\<lambda>cs.
     Inr \<lparr>object_type = ot, brand = br, model = mo, condition = co,
          shred_safety = ss, safety_notes = sn, primary_processing = pp,
          preprocessing_steps = ps, processing_notes = pn,
          hazardous_components = hc, disposal_category = dc,
          observations = ob, confidence_score = cs\<rparr>)))))))))))))"

fun EWasteAnalysis_init :: "conversions \<Rightarrow> json \<Rightarrow> error + EWasteAnalysis" where
  "EWasteAnalysis_init lax (JObj kv) = EWasteAnalysis_fields lax kv"
| "EWasteAnalysis_init lax _ = Inl TypeError"

text \<open>The fields of \<^verbatim>\<open>EWasteAnalysis\<close> declared without a default, in order.\<close>

definition EWasteAnalysis_required :: "string list" where
  "EWasteAnalysis_required =
     [''object_type'', ''condition'', ''shred_safety'', ''primary_processing'',
      ''processing_notes'', ''hazardous_components'', ''disposal_category'',
      ''observations'', ''confidence_score'']"

section \<open>The schema builder\<close>

text \<open>
  \<^verbatim>\<open>create_analysis_schema\<close> returns a dictionary literal. The four
  \<^verbatim>\<open>enum\<close> entries are list comprehensions \<^verbatim>\<open>[e.value for e in X]\<close> over
  the members of an enumeration.
\<close>

definition enum_values :: "('e \<Rightarrow> string) \<Rightarrow> 'e list \<Rightarrow> json" where
  "enum_values val members = JArr (map (\<lambda>e. JStr (val e)) members)"

definition create_analysis_schema :: json where
  "create_analysis_schema =
     JObj [
       (''type'', JStr ''object''),
       (''properties'', JObj [
          (''object_type'', JObj [
             (''type'', JStr ''string''),
             (''enum'', enum_values ObjectCategory_value ObjectCategory_members),
             (''description'', JStr ''Type of electronic waste'')]),
          (''brand'', JObj [
             (''type'', JStr ''string''),
             (''description'', JStr ''Brand name if visible''),
             (''nullable'', JBool True)]),
          (''model'', JObj [
             (''type'', JStr ''string''),
             (''description'', JStr ''Model number if visible''),
             (''nullable'', JBool True)]),
          (''condition'', JObj [
             (''type'', JStr ''string''),
             (''enum'', enum_values ConditionStatus_value ConditionStatus_members),
             (''description'', JStr ''Physical condition of the item'')]),
          (''shred_safety'', JObj [
             (''type'', JStr ''string''),
             (''enum'', enum_values ShredSafety_value ShredSafety_members),
             (''description'', JStr ''Whether item is safe to shred'')]),
          (''safety_notes'', JObj [
             (''type'', JStr ''array''),
             (''items'', JObj [(''type'', JStr ''string'')]),
             (''description'', JStr ''Specific safety concerns'')]),
          (''primary_processing'', JObj [
             (''type'', JStr ''string''),
             (''enum'', enum_values ProcessingMethod_value ProcessingMethod_members),
             (''description'', JStr ''Primary processing method'')]),
          (''preprocessing_steps'', JObj [
             (''type'', JStr ''array''),
             (''items'', JObj [(''type'', JStr ''string'')]),
             (''description'', JStr ''Required preprocessing steps'')]),
          (''processing_notes'', JObj [
             (''type'', JStr ''string''),
             (''description'', JStr ''Detailed processing instructions'')]),
          (''hazardous_components'', JObj [
             (''type'', JStr ''object''),
             (''properties'', JObj [
                (''has_battery'', JObj [(''type'', JStr ''boolean'')]),
                (''has_mercury'', JObj [(''type'', JStr ''boolean'')]),
                (''has_lead'', JObj [(''type'', JStr ''boolean'')]),
                (''has_capacitors'', JObj [(''type'', JStr ''boolean'')]),
                (''has_toner'', JObj [(''type'', JStr ''boolean'')]),
                (''has_data_storage'', JObj [(''type'', JStr ''boolean'')])]),
             (''required'', JArr [JStr ''has_battery'', JStr ''has_mercury'', JStr ''has_lead'',
                                 JStr ''has_capacitors'', JStr ''has_toner'',
                                 JStr ''has_data_storage''])]),
          (''disposal_category'', JObj [
             (''type'', JStr ''string''),
             (''description'', JStr ''Sorting category for disposal'')]),
          (''observations'', JObj [
             (''type'', JStr ''string''),
             (''description'', JStr ''Additional observations'')]),
          (''confidence_score'', JObj [
             (''type'', JStr ''number''),
             (''description'', JStr ''Confidence score between 0 and 1'')])]),
       (''required'', JArr [JStr ''object_type'', JStr ''condition'', JStr ''shred_safety'',
                           JStr ''primary_processing'', JStr ''processing_notes'',
                           JStr ''hazardous_components'', JStr ''disposal_category'',
                           JStr ''observations'', JStr ''confidence_score''])]"

text \<open>Reading the schema: \<^verbatim>\<open>d[k]\<close> on a dictionary, and the entries looked at below.\<close>

fun dict_get :: "json \<Rightarrow> string \<Rightarrow> json option" where
  "dict_get (JObj kv) k = map_of kv k"
| "dict_get _ k = None"

definition schema_property :: "json \<Rightarrow> string \<Rightarrow> json option" where
  "schema_property schema p =
     (case dict_get schema ''properties'' of
        Some props \<Rightarrow> dict_get props p
      | None \<Rightarrow> None)"

definition schema_enum :: "json \<Rightarrow> string \<Rightarrow> string list option" where
  "schema_enum schema p =
     (case schema_property schema p of
        Some prop \<Rightarrow>
          (case dict_get prop ''enum'' of
             Some (JArr xs) \<Rightarrow> str_items xs
           | _ \<Rightarrow> None)
      | None \<Rightarrow> None)"

definition schema_required :: "json \<Rightarrow> string list option" where
  "schema_required schema =
     (case dict_get schema ''required'' of
        Some (JArr xs) \<Rightarrow> str_items xs
      | _ \<Rightarrow> None)"

section \<open>The analysis request\<close>

definition NL :: string where
  "NL = [CHR 0x0A]"

text \<open>The fallback prompt, a triple-quoted literal with its indentation.\<close>

definition DEFAULT_PROMPT :: string where
  "DEFAULT_PROMPT =
     ''You are an expert E-waste Safety Analyzer. Analyze the image and identify:'' @ NL @
     ''        1. The type of electronic device'' @ NL @
     ''        2. Its condition'' @ NL @
     ''        3. Whether it'' @ [CHR 0x27] @ ''s safe to shred'' @ NL @
     ''        4. Any hazardous components'' @ NL @
     ''        5. Processing instructions'' @ NL @
     ''        '' @ NL @
     ''        Focus on safety and provide clear guidance.''"

text \<open>
  What \<^verbatim>\<open>open(prompt_file, "r")\<close> followed by \<^verbatim>\<open>f.read()\<close> finds at a
  path: the text of a file, no file (\<^verbatim>\<open>FileNotFoundError\<close>), or another
  failure of the operating system (a directory, a file without read permission).
\<close>

datatype file_state = Readable string | Not_found | Unreadable

type_synonym filesystem = "string \<Rightarrow> file_state"

text \<open>
  The first \<^verbatim>\<open>try\<close> statement of \<^verbatim>\<open>analyze_ewaste\<close>, which computes the
  prompt. The context is appended inside the \<^verbatim>\<open>try\<close> block, after the read;
  the handler of \<^verbatim>\<open>FileNotFoundError\<close> assigns the default prompt. No other
  exception is handled there.
\<close>

definition resolve_prompt :: "filesystem \<Rightarrow> string \<Rightarrow> string \<Rightarrow> error + string" where
  "resolve_prompt fs prompt_file additional_context =
     (case fs prompt_file of
        Readable text \<Rightarrow>
          Inr (if additional_context \<noteq> []
               then text @ NL @ NL @ ''Additional context: '' @ additional_context
               else text)
      | Not_found \<Rightarrow> Inr DEFAULT_PROMPT
      | Unreadable \<Rightarrow> Inl OSError)"

text \<open>
  The remote model is a parameter: from the prompt and the image path, the upload,
  the request and \<^verbatim>\<open>json.loads\<close> of the answer yield a value or raise. The
  second \<^verbatim>\<open>try\<close> statement re-raises whatever it catches. The messages
  that the function prints to the console are not part of the model.
\<close>

type_synonym remote_model = "string \<Rightarrow> string \<Rightarrow> error + json"

definition submit ::
  "conversions \<Rightarrow> remote_model \<Rightarrow> string \<Rightarrow> string \<Rightarrow> error + EWasteAnalysis" where
  "submit lax remote prompt image_file =
     bind_result (remote prompt image_file) (EWasteAnalysis_init lax)"

definition analyze_ewaste ::
  "conversions \<Rightarrow> filesystem \<Rightarrow> remote_model \<Rightarrow> string \<Rightarrow> string \<Rightarrow> string
     \<Rightarrow> error + EWasteAnalysis" where
  "analyze_ewaste lax fs remote image_file prompt_file additional_context =
     bind_result (resolve_prompt fs prompt_file additional_context)
       (\<lambda>prompt. submit lax remote prompt image_file)"

section \<open>The report renderer\<close>

text \<open>
  The characters of the template outside ASCII, as the bytes of the source file.
\<close>

definition BOX_BAR :: string where
  "BOX_BAR = [CHR 0xC3, CHR 0xA2, CHR 0xE2, CHR 0x80, CHR 0xA2]"

definition RULE_BAR :: string where
  "RULE_BAR = [CHR 0xC3, CHR 0xA2, CHR 0xE2, CHR 0x80, CHR 0x9D]"

definition TOP_BORDER :: string where
  "TOP_BORDER =
     BOX_BAR @ [CHR 0xE2, CHR 0x80, CHR 0x9D] @ concat (replicate 61 BOX_BAR)
       @ [CHR 0xE2, CHR 0x80, CHR 0x94]"

definition SIDE_BORDER :: string where
  "SIDE_BORDER = BOX_BAR @ [CHR 0xE2, CHR 0x80, CHR 0x98]"

definition BOTTOM_BORDER :: string where
  "BOTTOM_BORDER = BOX_BAR @ [CHR 0xC5, CHR 0xA1] @ concat (replicate 61 BOX_BAR)"

definition SECTION_RULE :: string where
  "SECTION_RULE = concat (replicate 56 RULE_BAR)"

definition END_RULE :: string where
  "END_RULE = concat (replicate 60 BOX_BAR)"

definition ITEM_TITLE :: string where
  "ITEM_TITLE =
     [CHR 0xC4, CHR 0x9F, CHR 0xC5, CHR 0xB8, CHR 0xE2, CHR 0x80, CHR 0x9C, CHR 0xC2, CHR 0xA6]
       @ '' ITEM IDENTIFICATION''"

definition WARNING_SIGN :: string where
  "WARNING_SIGN =
     [CHR 0xC3, CHR 0xA2, CHR 0xC5, CHR 0xA1, CHR 0xC2, CHR 0xA0, CHR 0xC3, CHR 0xAF,
      CHR 0xC2, CHR 0xB8]"

definition CHECK_MARK :: string where
  "CHECK_MARK = [CHR 0xC3, CHR 0xA2, CHR 0xC5, CHR 0x93, CHR 0xE2, CHR 0x80, CHR 0x9C]"

definition BOLT :: string where
  "BOLT = [CHR 0xC3, CHR 0xA2, CHR 0xC5, CHR 0xA1, CHR 0xC2, CHR 0xA1]"

definition SAFETY_TITLE :: string where
  "SAFETY_TITLE = WARNING_SIGN @ ''  SAFETY ASSESSMENT''"

definition HAZARD_TITLE :: string where
  "HAZARD_TITLE =
     [CHR 0xC3, CHR 0xA2, CHR 0xCB, CHR 0x9C, CHR 0xC2, CHR 0xA3, CHR 0xC3, CHR 0xAF,
      CHR 0xC2, CHR 0xB8] @ ''  HAZARDOUS COMPONENTS''"

definition PROCESSING_TITLE :: string where
  "PROCESSING_TITLE =
     [CHR 0xC4, CHR 0x9F, CHR 0xC5, CHR 0xB8, CHR 0xE2, CHR 0x80, CHR 0x9D, CHR 0xC2, CHR 0xA7]
       @ '' PROCESSING INSTRUCTIONS''"

definition OBSERVATIONS_TITLE :: string where
  "OBSERVATIONS_TITLE =
     [CHR 0xC4, CHR 0x9F, CHR 0xC5, CHR 0xB8, CHR 0xE2, CHR 0x80, CHR 0x9C]
       @ '' ADDITIONAL OBSERVATIONS''"

text \<open>
  The clock reading of \<^verbatim>\<open>datetime.now()\<close> and its
  \<^verbatim>\<open>strftime('%Y-%m-%d %H:%M:%S')\<close>: zero-padded decimal fields. (For a year
  below 1000 the padding of \<^verbatim>\<open>%Y\<close> depends on the C library; a clock reading
  has four digits.)
\<close>

record datetime =
  year :: nat
  month :: nat
  day :: nat
  hour :: nat
  minute :: nat
  second :: nat
  microsecond :: nat

definition strftime :: "datetime \<Rightarrow> string" where
  "strftime t =
     zfill 4 (show_nat (year t)) @ ''-'' @ zfill 2 (show_nat (month t)) @ ''-''
       @ zfill 2 (show_nat (day t)) @ '' '' @ zfill 2 (show_nat (hour t)) @ '':''
       @ zfill 2 (show_nat (minute t)) @ '':'' @ zfill 2 (show_nat (second t))"

text \<open>
  An enumeration member in an f-string. The members are strings as well as
  enumeration members, and the interpreter decides which of the two is formatted:
  before Python 3.11 the value, from Python 3.11 on the class and member name.
\<close>

datatype python_version = Before_3_11 | From_3_11

definition format_enum :: "python_version \<Rightarrow> string \<Rightarrow> string \<Rightarrow> string \<Rightarrow> string" where
  "format_enum pv cls name val =
     (case pv of Before_3_11 \<Rightarrow> val | From_3_11 \<Rightarrow> cls @ ''.'' @ name)"

text \<open>\<^verbatim>\<open>s or d\<close> for an optional string: \<^verbatim>\<open>None\<close> and the empty string are false.\<close>

fun or_default :: "string option \<Rightarrow> string \<Rightarrow> string" where
  "or_default None d = d"
| "or_default (Some s) d = (if s = [] then d else s)"

definition hazard_mark :: "bool \<Rightarrow> string" where
  "hazard_mark b = (if b then WARNING_SIGN @ '' YES'' else CHECK_MARK @ '' No'')"

text \<open>
  The function builds the report with three f-strings and two conditional loops
  in between; the model has a definition for each, the second f-string in two
  halves (the hazard lines, the processing instructions).
\<close>

definition report_header :: "python_version \<Rightarrow> datetime \<Rightarrow> EWasteAnalysis \<Rightarrow> string" where
  "report_header pv now a =
     NL @ TOP_BORDER @ NL
     @ SIDE_BORDER @ ''          E-WASTE SAFETY & PROCESSING REPORT               ''
         @ SIDE_BORDER @ NL
     @ SIDE_BORDER @ ''                '' @ strftime now @ ''                     ''
         @ SIDE_BORDER @ NL
     @ BOTTOM_BORDER @ NL
     @ NL
     @ ITEM_TITLE @ NL
     @ SECTION_RULE @ NL
     @ ''Type: '' @ format_enum pv ''ObjectCategory'' (ObjectCategory_name (object_type a))
                      (ObjectCategory_value (object_type a)) @ NL
     @ ''Brand: '' @ or_default (brand a) ''Not identified'' @ NL
     @ ''Model: '' @ or_default (model a) ''Not identified'' @ NL
     @ ''Condition: '' @ format_enum pv ''ConditionStatus'' (ConditionStatus_name (condition a))
                           (ConditionStatus_value (condition a)) @ NL
     @ ''Confidence: '' @ format_percent1 (confidence_score a) @ NL
     @ NL
     @ SAFETY_TITLE @ NL
     @ SECTION_RULE @ NL
     @ ''Shred Safety: '' @ format_enum pv ''ShredSafety'' (ShredSafety_name (shred_safety a))
                              (ShredSafety_value (shred_safety a)) @ NL
     @ ''Disposal Category: '' @ disposal_category a @ NL"

definition report_safety_notes :: "EWasteAnalysis \<Rightarrow> string" where
  "report_safety_notes a =
     (if safety_notes a \<noteq> []
      then NL @ ''Safety Concerns:'' @ NL
           @ concat (map (\<lambda>note. ''  '' @ BOLT @ '' '' @ note @ NL) (safety_notes a))
      else [])"

definition report_hazards :: "EWasteAnalysis \<Rightarrow> string" where
  "report_hazards a =
     NL @ HAZARD_TITLE @ NL
     @ SECTION_RULE @ NL
     @ ''Battery: '' @ hazard_mark (has_battery (hazardous_components a)) @ NL
     @ ''Mercury: '' @ hazard_mark (has_mercury (hazardous_components a)) @ NL
     @ ''Lead: '' @ hazard_mark (has_lead (hazardous_components a)) @ NL
     @ ''Capacitors: '' @ hazard_mark (has_capacitors (hazardous_components a)) @ NL
     @ ''Toner/Ink: '' @ hazard_mark (has_toner (hazardous_components a)) @ NL
     @ ''Data Storage: '' @ hazard_mark (has_data_storage (hazardous_components a)) @ NL"

definition report_processing :: "python_version \<Rightarrow> EWasteAnalysis \<Rightarrow> string" where
  "report_processing pv a =
     NL @ PROCESSING_TITLE @ NL
     @ SECTION_RULE @ NL
     @ ''Primary Method: ''
         @ format_enum pv ''ProcessingMethod'' (ProcessingMethod_name (primary_processing a))
             (ProcessingMethod_value (primary_processing a)) @ NL
     @ NL
     @ ''Processing Notes:'' @ NL
     @ processing_notes a @ NL"

text \<open>\<^verbatim>\<open>for i, step in enumerate(steps, 1)\<close>.\<close>

fun numbered_steps :: "nat \<Rightarrow> string list \<Rightarrow> string" where
  "numbered_steps i [] = []"
| "numbered_steps i (step # steps) =
     ''  '' @ show_nat i @ ''. '' @ step @ NL @ numbered_steps (Suc i) steps"

definition report_preprocessing :: "EWasteAnalysis \<Rightarrow> string" where
  "report_preprocessing a =
     (if preprocessing_steps a \<noteq> []
      then NL @ ''Preprocessing Required:'' @ NL @ numbered_steps 1 (preprocessing_steps a)
      else [])"

definition report_observations :: "EWasteAnalysis \<Rightarrow> string" where
  "report_observations a =
     NL @ OBSERVATIONS_TITLE @ NL
     @ SECTION_RULE @ NL
     @ observations a @ NL
     @ NL
     @ END_RULE @ NL"

definition generate_processing_report ::
  "python_version \<Rightarrow> datetime \<Rightarrow> EWasteAnalysis \<Rightarrow> string" where
  "generate_processing_report pv now a =
     report_header pv now a @ report_safety_notes a @ report_hazards a
       @ report_processing pv a @ report_preprocessing a @ report_observations a"




section \<open>Notions used in the statements\<close>

text \<open>The lines of a text, as \<^verbatim>\<open>str.split('\n')\<close> gives them.\<close>

fun split_lines :: "string \<Rightarrow> string list" where
  "split_lines [] = [[]]"
| "split_lines (c # cs) =
     (if c = CHR 0x0A then [] # split_lines cs
      else (case split_lines cs of l # ls \<Rightarrow> (c # l) # ls | [] \<Rightarrow> [[c]]))"

definition newlines :: "string \<Rightarrow> nat" where
  "newlines s = length (filter (\<lambda>c. c = CHR 0x0A) s)"

definition ends_with :: "string \<Rightarrow> string \<Rightarrow> bool" where
  "ends_with l m = (length m \<le> length l \<and> drop (length l - length m) l = m)"

text \<open>The number of lines that end with a mark.\<close>

definition marked :: "string \<Rightarrow> string list \<Rightarrow> nat" where
  "marked m ls = length (filter (\<lambda>l. ends_with l m) ls)"

text \<open>
  A dictionary that supplies values of the declared types: a label of the
  enumeration for each enumeration field, strings, booleans, a dictionary of six
  booleans for the hazards, and where a field has a default either no entry or a
  value of its type. The entry of \<^verbatim>\<open>confidence_score\<close> is described
  separately.
\<close>

fun is_label :: "('e \<Rightarrow> string) \<Rightarrow> 'e list \<Rightarrow> json option \<Rightarrow> bool" where
  "is_label val members (Some (JStr s)) = (s \<in> set (map val members))"
| "is_label val members _ = False"

fun is_str :: "json option \<Rightarrow> bool" where
  "is_str (Some (JStr s)) = True"
| "is_str _ = False"

fun is_optional_str :: "json option \<Rightarrow> bool" where
  "is_optional_str None = True"
| "is_optional_str (Some JNull) = True"
| "is_optional_str (Some (JStr s)) = True"
| "is_optional_str _ = False"

fun is_optional_str_list :: "json option \<Rightarrow> bool" where
  "is_optional_str_list None = True"
| "is_optional_str_list (Some (JArr xs)) = (str_items xs \<noteq> None)"
| "is_optional_str_list _ = False"

fun is_bool :: "json option \<Rightarrow> bool" where
  "is_bool (Some (JBool b)) = True"
| "is_bool _ = False"

fun is_hazards :: "json option \<Rightarrow> bool" where
  "is_hazards (Some (JObj h)) =
     (is_bool (map_of h ''has_battery'') \<and> is_bool (map_of h ''has_mercury'')
      \<and> is_bool (map_of h ''has_lead'') \<and> is_bool (map_of h ''has_capacitors'')
      \<and> is_bool (map_of h ''has_toner'') \<and> is_bool (map_of h ''has_data_storage''))"
| "is_hazards _ = False"

definition typed_fields :: "(string \<times> json) list \<Rightarrow> bool" where
  "typed_fields kv =
     (is_label ObjectCategory_value ObjectCategory_members (map_of kv ''object_type'')
      \<and> is_optional_str (map_of kv ''brand'')
      \<and> is_optional_str (map_of kv ''model'')
      \<and> is_label ConditionStatus_value ConditionStatus_members (map_of kv ''condition'')
      \<and> is_label ShredSafety_value ShredSafety_members (map_of kv ''shred_safety'')
      \<and> is_optional_str_list (map_of kv ''safety_notes'')
      \<and> is_label ProcessingMethod_value ProcessingMethod_members
            (map_of kv ''primary_processing'')
      \<and> is_optional_str_list (map_of kv ''preprocessing_steps'')
      \<and> is_str (map_of kv ''processing_notes'')
      \<and> is_hazards (map_of kv ''hazardous_components'')
      \<and> is_str (map_of kv ''disposal_category'')
      \<and> is_str (map_of kv ''observations''))"

text \<open>A JSON number: an integer or a float.\<close>

fun is_number :: "json option \<Rightarrow> bool" where
  "is_number (Some (JInt n)) = True"
| "is_number (Some (JFloat x)) = True"
| "is_number _ = False"

text \<open>
  A number that is a float already, or an integer that \<^verbatim>\<open>float\<close> converts
  without rounding and without overflow.
\<close>

fun is_exact_number :: "json option \<Rightarrow> bool" where
  "is_exact_number (Some (JInt n)) = (float_of_int n = Inr (Fin (of_int n)))"
| "is_exact_number (Some (JFloat x)) = True"
| "is_exact_number _ = False"

text \<open>A number within the interval from 0 to 1.\<close>

fun in_unit_interval :: "json option \<Rightarrow> bool" where
  "in_unit_interval (Some (JInt n)) = (0 \<le> n \<and> n \<le> 1)"
| "in_unit_interval (Some (JFloat (Fin q))) = (0 \<le> q \<and> q \<le> 1)"
| "in_unit_interval (Some (JFloat NegZero)) = True"
| "in_unit_interval _ = False"

text \<open>
  The stored float is the number of the input: the same float, or the float equal
  to the integer.
\<close>

fun same_number :: "json option \<Rightarrow> pyfloat \<Rightarrow> bool" where
  "same_number (Some (JInt n)) x = (x = Fin (of_int n))"
| "same_number (Some (JFloat y)) x = (x = y)"
| "same_number _ x = False"

text \<open>
  The record holds the values of the dictionary: each entry is the JSON form of
  the field, and a field with a default holds the default when there is no entry.
\<close>

fun holds_optional_str :: "json option \<Rightarrow> string option \<Rightarrow> bool" where
  "holds_optional_str None x = (x = None)"
| "holds_optional_str (Some JNull) x = (x = None)"
| "holds_optional_str (Some (JStr s)) x = (x = Some s)"
| "holds_optional_str (Some _) x = False"

fun holds_str_list :: "json option \<Rightarrow> string list \<Rightarrow> bool" where
  "holds_str_list None xs = (xs = [])"
| "holds_str_list (Some v) xs = (v = JArr (map JStr xs))"

definition holds_hazards :: "json option \<Rightarrow> HazardousComponents \<Rightarrow> bool" where
  "holds_hazards v hc =
     (case v of
        Some (JObj h) \<Rightarrow>
          map_of h ''has_battery'' = Some (JBool (has_battery hc))
          \<and> map_of h ''has_mercury'' = Some (JBool (has_mercury hc))
          \<and> map_of h ''has_lead'' = Some (JBool (has_lead hc))
          \<and> map_of h ''has_capacitors'' = Some (JBool (has_capacitors hc))
          \<and> map_of h ''has_toner'' = Some (JBool (has_toner hc))
          \<and> map_of h ''has_data_storage'' = Some (JBool (has_data_storage hc))
      | _ \<Rightarrow> False)"

definition holds_fields :: "(string \<times> json) list \<Rightarrow> EWasteAnalysis \<Rightarrow> bool" where
  "holds_fields kv a =
     (map_of kv ''object_type'' = Some (JStr (ObjectCategory_value (object_type a)))
      \<and> holds_optional_str (map_of kv ''brand'') (brand a)
      \<and> holds_optional_str (map_of kv ''model'') (model a)
      \<and> map_of kv ''condition'' = Some (JStr (ConditionStatus_value (condition a)))
      \<and> map_of kv ''shred_safety'' = Some (JStr (ShredSafety_value (shred_safety a)))
      \<and> holds_str_list (map_of kv ''safety_notes'') (safety_notes a)
      \<and> map_of kv ''primary_processing''
            = Some (JStr (ProcessingMethod_value (primary_processing a)))
      \<and> holds_str_list (map_of kv ''preprocessing_steps'') (preprocessing_steps a)
      \<and> map_of kv ''processing_notes'' = Some (JStr (processing_notes a))
      \<and> holds_hazards (map_of kv ''hazardous_components'') (hazardous_components a)
      \<and> map_of kv ''disposal_category'' = Some (JStr (disposal_category a))
      \<and> map_of kv ''observations'' = Some (JStr (observations a))
      \<and> same_number (map_of kv ''confidence_score'') (confidence_score a))"

text \<open>A construction that fails with a validation error.\<close>

definition is_validation_error :: "error + 'a \<Rightarrow> bool" where
  "is_validation_error r = (case r of Inl (ValidationError f i) \<Rightarrow> True | _ \<Rightarrow> False)"

section \<open>Example inputs\<close>

text \<open>
  A dictionary as the remote model may answer, with the entry of
  \<^verbatim>\<open>confidence_score\<close> left open, and the record built from it.
\<close>

definition example_input :: "json \<Rightarrow> (string \<times> json) list" where
  "example_input c =
     [(''object_type'', JStr ''Laptop''),
      (''brand'', JNull),
      (''condition'', JStr ''Partially Damaged''),
      (''shred_safety'', JStr ''Do Not Shred''),
      (''safety_notes'', JArr [JStr ''Swollen battery'']),
      (''primary_processing'', JStr ''Battery Removal Required''),
      (''processing_notes'', JStr ''Remove the battery pack before any shredding.''),
      (''hazardous_components'',
         JObj [(''has_battery'', JBool True), (''has_mercury'', JBool False),
               (''has_lead'', JBool False), (''has_capacitors'', JBool False),
               (''has_toner'', JBool False), (''has_data_storage'', JBool False)]),
      (''disposal_category'', JStr ''Hazardous''),
      (''observations'', JStr ''Casing cracked.''),
      (''confidence_score'', c)]"

definition example_record :: "pyfloat \<Rightarrow> EWasteAnalysis" where
  "example_record x =
     \<lparr>object_type = LAPTOP, brand = None, model = None, condition = PARTIALLY_DAMAGED,
      shred_safety = DO_NOT_SHRED, safety_notes = [''Swollen battery''],
      primary_processing = BATTERY_REMOVAL, preprocessing_steps = [],
      processing_notes = ''Remove the battery pack before any shredding.'',
      hazardous_components =
        \<lparr>has_battery = True, has_mercury = False, has_lead = False,
         has_capacitors = False, has_toner = False, has_data_storage = False\<rparr>,
      disposal_category = ''Hazardous'', observations = ''Casing cracked.'',
      confidence_score = x\<rparr>"

text \<open>The same dictionary without the entry of \<^verbatim>\<open>confidence_score\<close>.\<close>

definition example_without_confidence :: "(string \<times> json) list" where
  "example_without_confidence = butlast (example_input JNull)"

definition example_time :: datetime where
  "example_time =
     \<lparr>year = 2025, month = 3, day = 7, hour = 9, minute = 5, second = 0, microsecond = 0\<rparr>"

text \<open>A conversion table that converts nothing.\<close>

definition no_conversions :: conversions where
  "no_conversions = \<lparr>to_bool = (\<lambda>v. None), to_float = (\<lambda>v. None)\<rparr>"



section \<open>Properties of the float model\<close>

lemma pow2_powi: "pow2 e = 2 powi e"
  by (simp add: pow2_def power_int_def power_one_over)

lemma pow2_pos: "0 < pow2 e"
  by (simp add: pow2_powi)

lemma pow2_strict_mono: "e < e' \<Longrightarrow> pow2 e < pow2 e'"
  by (simp add: pow2_powi power_int_strict_increasing)

lemma pow2_mono: "e \<le> e' \<Longrightarrow> pow2 e \<le> pow2 e'"
  by (simp add: pow2_powi power_int_increasing)

lemma pow2_of_nat: "0 \<le> e \<Longrightarrow> pow2 e = 2 ^ nat e"
  by (simp add: pow2_def)

lemma pow2_diff: "pow2 (a - b) = pow2 a / pow2 b"
  by (simp add: pow2_powi power_int_diff)

lemma floor_log2_bounds:
  assumes "0 < a"
  shows "pow2 (floor_log2 a) \<le> a \<and> a < pow2 (floor_log2 a + 1)"
proof -
  obtain n d where qd: "quotient_of a = (n, d)" by (cases "quotient_of a")
  have d: "0 < d" using quotient_of_denom_pos [OF qd] .
  have a: "a = of_int n / of_int d" using quotient_of_div [OF qd] .
  have n: "0 < n" using assms d a by (simp add: zero_less_divide_iff)
  let ?e = "bitlen n - bitlen d"
  have bn: "2 ^ nat (bitlen n - 1) \<le> n" "n < 2 ^ nat (bitlen n)"
    using bitlen_bounds [OF n] by auto
  have bd: "2 ^ nat (bitlen d - 1) \<le> d" "d < 2 ^ nat (bitlen d)"
    using bitlen_bounds [OF d] by auto
  have n1: "1 \<le> bitlen n" using n bitlen_eq_zero_iff [of n] bitlen_nonneg [of n] by linarith
  have d1: "1 \<le> bitlen d" using d bitlen_eq_zero_iff [of d] bitlen_nonneg [of d] by linarith
  have "(of_int (2 ^ nat (bitlen n - 1)) :: rat) \<le> of_int n"
    using bn(1) by (simp only: of_int_le_iff)
  moreover have "(of_int n :: rat) < of_int (2 ^ nat (bitlen n))"
    using bn(2) by (simp only: of_int_less_iff)
  ultimately have rn: "pow2 (bitlen n - 1) \<le> of_int n" "(of_int n :: rat) < pow2 (bitlen n)"
    using n1 by (simp_all add: pow2_def)
  have "(of_int (2 ^ nat (bitlen d - 1)) :: rat) \<le> of_int d"
    using bd(1) by (simp only: of_int_le_iff)
  moreover have "(of_int d :: rat) < of_int (2 ^ nat (bitlen d))"
    using bd(2) by (simp only: of_int_less_iff)
  ultimately have rd: "pow2 (bitlen d - 1) \<le> of_int d" "(of_int d :: rat) < pow2 (bitlen d)"
    using d1 by (simp_all add: pow2_def)
  have dpos: "(0::rat) < of_int d" using d by simp
  have e1: "pow2 (?e - 1) = pow2 (bitlen n - 1) / pow2 (bitlen d)"
    using pow2_diff [of "bitlen n - 1" "bitlen d"] by (simp add: algebra_simps)
  have e2: "pow2 (?e + 1) = pow2 (bitlen n) / pow2 (bitlen d - 1)"
    using pow2_diff [of "bitlen n" "bitlen d - 1"] by (simp add: algebra_simps)
  have lo: "pow2 (?e - 1) < a"
    unfolding e1 a
    by (rule frac_less2 [OF pow2_pos rn(1) dpos rd(2)])
  have hi: "a < pow2 (?e + 1)"
    unfolding e2 a
    using n by (intro frac_less [OF _ rn(2) pow2_pos rd(1)]) simp
  show ?thesis
    using lo hi qd by (auto simp: floor_log2_def Let_def)
qed

lemma floor_log2_unique:
  assumes "0 < a" "pow2 e \<le> a" "a < pow2 (e + 1)"
  shows "floor_log2 a = e"
proof -
  let ?r = "floor_log2 a"
  have b: "pow2 ?r \<le> a" "a < pow2 (?r + 1)" using floor_log2_bounds [OF assms(1)] by auto
  have "\<not> ?r < e"
  proof
    assume "?r < e" then have "pow2 (?r + 1) \<le> pow2 e" by (intro pow2_mono) simp
    with b assms show False by linarith
  qed
  moreover have "\<not> e < ?r"
  proof
    assume "e < ?r" then have "pow2 (e + 1) \<le> pow2 ?r" by (intro pow2_mono) simp
    with b assms show False by linarith
  qed
  ultimately show ?thesis by linarith
qed

lemma round_half_even_near:
  assumes "\<bar>x - of_int f\<bar> < 1 / 2"
  shows "round_half_even x = f"
proof (cases "of_int f \<le> x")
  case True
  with assms have "\<lfloor>x\<rfloor> = f" by (intro floor_unique) (auto simp: abs_if split: if_splits)
  with assms True show ?thesis by (simp add: round_half_even_def Let_def)
next
  case False
  with assms have fl: "\<lfloor>x\<rfloor> = f - 1" by (intro floor_unique) (auto simp: abs_if split: if_splits)
  with assms False show ?thesis by (auto simp add: round_half_even_def Let_def abs_if split: if_splits)
qed

lemma round_half_even_tie:
  assumes "x = of_int f + 1 / 2" "even f"
  shows "round_half_even x = f"
proof -
  have "\<lfloor>x\<rfloor> = f" using assms by (intro floor_unique) auto
  with assms show ?thesis by (simp add: round_half_even_def Let_def)
qed

lemma round_half_even_int: "round_half_even (of_int f) = f"
  by (rule round_half_even_near) simp


lemma round_double_finite:
  assumes "0 < a" "pow2 e \<le> a" "a < pow2 (e + 1)"
    and "ee = max (e - 52) (- 1074)"
    and "round_half_even (a / pow2 ee) = m"
    and "r = of_int m * pow2 ee" "0 < r" "r < pow2 1024"
  shows "round_double a = Fin r" and "round_double (- a) = Fin (- r)"
proof -
  have e: "floor_log2 a = e" using assms(1-3) by (rule floor_log2_unique)
  show "round_double a = Fin r"
    using assms e by (simp add: round_double_def Let_def)
  have nz: "pow2 ee \<noteq> 0" using pow2_pos [of ee] by simp
  have "m \<noteq> 0" using assms(6,7) by auto
  then show "round_double (- a) = Fin (- r)"
    using assms e nz by (simp add: round_double_def Let_def)
qed

lemma round_double_overflow:
  assumes "0 < a" "pow2 e \<le> a" "a < pow2 (e + 1)"
    and "ee = max (e - 52) (- 1074)"
    and "round_half_even (a / pow2 ee) = m"
    and "pow2 1024 \<le> of_int m * pow2 ee"
  shows "round_double a = PosInf"
proof -
  have e: "floor_log2 a = e" using assms(1-3) by (rule floor_log2_unique)
  show ?thesis
    using assms e by (simp add: round_double_def Let_def)
qed

lemma round_double_087: "round_double (87 / 100) = Fin (7836263351624663 / 9007199254740992)"
proof (rule round_double_finite(1) [where e = "- 1" and ee = "- 53" and m = 7836263351624663])
  show "round_half_even (87 / 100 / pow2 (- 53)) = 7836263351624663"
    by (rule round_half_even_near) (simp add: pow2_def)
qed (simp_all add: pow2_def)

lemma times_100_087: "float_times_100 (Fin (7836263351624663 / 9007199254740992)) = Fin 87"
proof -
  have "round_double (7836263351624663 / 9007199254740992 * 100) = Fin 87"
  proof (rule round_double_finite(1) [where e = 6 and ee = "- 46" and m = 6122080743456768])
    show "round_half_even (7836263351624663 / 9007199254740992 * 100 / pow2 (- 46)) = 6122080743456768"
      by (rule round_half_even_near) (simp add: pow2_def)
  qed (simp_all add: pow2_def)
  then show ?thesis by (simp only: float_times_100.simps)
qed

lemma show_nat_digit: "n < 10 \<Longrightarrow> show_nat n = [digit_char n]"
  by (simp add: show_nat.simps)

lemma format_fixed1_87: "format_fixed1 87 = ''87.0''"
proof -
  have "round_half_even (87 * 10) = 870"
    by (rule round_half_even_near) simp
  then show ?thesis
    by (simp add: format_fixed1_def Let_def show_nat.simps [of 87] show_nat_digit digit_char_def)
qed

lemma format_087: "format_percent1 (float_literal (87 / 100)) = ''87.0%''"
  by (simp only: format_percent1_def float_literal_def round_double_087 times_100_087 pyfloat.case)
     (simp add: format_fixed1_87)


lemma float_of_int_exact:
  assumes "0 < n" "pow2 e \<le> of_int n" "of_int n < pow2 (e + 1)"
    and "ee = max (e - 52) (- 1074)"
    and "round_half_even (of_int n / pow2 ee) = m"
    and "of_int n = of_int m * pow2 ee" "(of_int n :: rat) < pow2 1024"
  shows "float_of_int n = Inr (Fin (of_int n))" and "float_of_int (- n) = Inr (Fin (of_int (- n)))"
proof -
  have pos: "(0::rat) < of_int n" using assms(1) by simp
  show "float_of_int n = Inr (Fin (of_int n))"
    using round_double_finite(1) [OF pos assms(2,3,4,5,6) pos assms(7)]
    by (simp add: float_of_int_def)
  show "float_of_int (- n) = Inr (Fin (of_int (- n)))"
    using round_double_finite(2) [OF pos assms(2,3,4,5,6) pos assms(7)]
    by (simp add: float_of_int_def)
qed

lemma float_of_int_0: "float_of_int 0 = Inr (Fin 0)"
  by (simp add: float_of_int_def round_double_def)

lemma float_of_int_minus_1: "float_of_int (- 1) = Inr (Fin (- 1))"
proof -
  have "round_half_even (of_int 1 / pow2 (- 52)) = 4503599627370496"
    by (rule round_half_even_near) (simp add: pow2_def)
  from float_of_int_exact(2) [where n = 1 and e = 0 and ee = "- 52", OF _ _ _ _ this]
  show ?thesis by (simp add: pow2_def)
qed

section \<open>Properties of the enumerations\<close>

lemma ObjectCategory_members_all: "set ObjectCategory_members = UNIV"
proof -
  have "x \<in> set ObjectCategory_members" for x
    by (cases x) (simp_all add: ObjectCategory_members_def)
  then show ?thesis by auto
qed

lemma ConditionStatus_members_all: "set ConditionStatus_members = UNIV"
proof -
  have "x \<in> set ConditionStatus_members" for x
    by (cases x) (simp_all add: ConditionStatus_members_def)
  then show ?thesis by auto
qed

lemma ShredSafety_members_all: "set ShredSafety_members = UNIV"
proof -
  have "x \<in> set ShredSafety_members" for x
    by (cases x) (simp_all add: ShredSafety_members_def)
  then show ?thesis by auto
qed

lemma ProcessingMethod_members_all: "set ProcessingMethod_members = UNIV"
proof -
  have "x \<in> set ProcessingMethod_members" for x
    by (cases x) (simp_all add: ProcessingMethod_members_def)
  then show ?thesis by auto
qed

lemma ObjectCategory_values_distinct: "distinct (map ObjectCategory_value ObjectCategory_members)"
  by (simp add: ObjectCategory_members_def)

lemma ConditionStatus_values_distinct:
  "distinct (map ConditionStatus_value ConditionStatus_members)"
  by (simp add: ConditionStatus_members_def)

lemma ShredSafety_values_distinct: "distinct (map ShredSafety_value ShredSafety_members)"
  by (simp add: ShredSafety_members_def)

lemma ProcessingMethod_values_distinct:
  "distinct (map ProcessingMethod_value ProcessingMethod_members)"
  by (simp add: ProcessingMethod_members_def)

lemma str_items_map_JStr: "str_items (map (\<lambda>e. JStr (f e)) xs) = Some (map f xs)"
  by (induction xs) simp_all

lemma schema_enum_object_type:
  "schema_enum create_analysis_schema ''object_type''
     = Some (map ObjectCategory_value ObjectCategory_members)"
  by (simp add: schema_enum_def schema_property_def create_analysis_schema_def enum_values_def
      str_items_map_JStr)

lemma schema_enum_condition:
  "schema_enum create_analysis_schema ''condition''
     = Some (map ConditionStatus_value ConditionStatus_members)"
  by (simp add: schema_enum_def schema_property_def create_analysis_schema_def enum_values_def
      str_items_map_JStr)

lemma schema_enum_shred_safety:
  "schema_enum create_analysis_schema ''shred_safety''
     = Some (map ShredSafety_value ShredSafety_members)"
  by (simp add: schema_enum_def schema_property_def create_analysis_schema_def enum_values_def
      str_items_map_JStr)

lemma schema_enum_primary_processing:
  "schema_enum create_analysis_schema ''primary_processing''
     = Some (map ProcessingMethod_value ProcessingMethod_members)"
  by (simp add: schema_enum_def schema_property_def create_analysis_schema_def enum_values_def
      str_items_map_JStr)

lemma schema_required_fields:
  "schema_required create_analysis_schema = Some EWasteAnalysis_required"
  by (simp add: schema_required_def create_analysis_schema_def EWasteAnalysis_required_def)

text \<open>
  Claim C1. For each of the four enumerations, the \<^verbatim>\<open>enum\<close> list that
  \<^verbatim>\<open>create_analysis_schema\<close> gives for its property (\<^verbatim>\<open>object_type\<close>,
  \<^verbatim>\<open>condition\<close>, \<^verbatim>\<open>shred_safety\<close>, \<^verbatim>\<open>primary_processing\<close>) is the list
  of the values of the members of the enumeration, in definition order; the list of
  members holds every member, and no two members share a value.
\<close>

theorem create_analysis_schema_enum_lists:
  "schema_enum create_analysis_schema ''object_type''
     = Some (map ObjectCategory_value ObjectCategory_members)
   \<and> schema_enum create_analysis_schema ''condition''
     = Some (map ConditionStatus_value ConditionStatus_members)
   \<and> schema_enum create_analysis_schema ''shred_safety''
     = Some (map ShredSafety_value ShredSafety_members)
   \<and> schema_enum create_analysis_schema ''primary_processing''
     = Some (map ProcessingMethod_value ProcessingMethod_members)
   \<and> set ObjectCategory_members = UNIV
   \<and> set ConditionStatus_members = UNIV
   \<and> set ShredSafety_members = UNIV
   \<and> set ProcessingMethod_members = UNIV
   \<and> distinct (map ObjectCategory_value ObjectCategory_members)
   \<and> distinct (map ConditionStatus_value ConditionStatus_members)
   \<and> distinct (map ShredSafety_value ShredSafety_members)
   \<and> distinct (map ProcessingMethod_value ProcessingMethod_members)"
  by (intro conjI schema_enum_object_type schema_enum_condition schema_enum_shred_safety
      schema_enum_primary_processing ObjectCategory_members_all ConditionStatus_members_all
      ShredSafety_members_all ProcessingMethod_members_all ObjectCategory_values_distinct
      ConditionStatus_values_distinct ShredSafety_values_distinct
      ProcessingMethod_values_distinct)

section \<open>Properties of the validation\<close>

lemma enum_of_value_label:
  "s \<in> set (map val members) \<Longrightarrow> \<exists>e. enum_of_value val members s = Some e \<and> val e = s"
  unfolding enum_of_value_def by (induction members) auto

lemma validate_enum_label:
  "is_label val members v \<Longrightarrow> \<exists>e. validate_enum val members f v = Inr e \<and> v = Some (JStr (val e))"
proof (cases "(val, members, v)" rule: is_label.cases)
  case (1 val' ms s)
  assume "is_label val members v"
  with 1 have "s \<in> set (map val members)" by simp
  from enum_of_value_label [OF this] 1 show ?thesis by auto
qed auto

lemma validate_str_typed: "is_str v \<Longrightarrow> \<exists>s. validate_str f v = Inr s \<and> v = Some (JStr s)"
  by (cases v rule: is_str.cases) auto

lemma validate_optional_str_typed:
  "is_optional_str v \<Longrightarrow> \<exists>x. validate_optional_str f v = Inr x \<and> holds_optional_str v x"
  by (cases v rule: is_optional_str.cases) auto

lemma str_items_Some: "str_items xs = Some ss \<Longrightarrow> xs = map JStr ss"
proof (induction xs arbitrary: ss rule: str_items.induct)
  case (2 s xs)
  then show ?case by (auto split: option.splits)
qed auto

lemma validate_str_list_typed:
  "is_optional_str_list v \<Longrightarrow> \<exists>xs. validate_str_list f v = Inr xs \<and> holds_str_list v xs"
  by (cases v rule: is_optional_str_list.cases) (auto dest: str_items_Some)

lemma validate_bool_typed:
  "is_bool v \<Longrightarrow> \<exists>b. validate_bool lax f v = Inr b \<and> v = Some (JBool b)"
  by (cases v rule: is_bool.cases) auto

lemma validate_hazardous_typed:
  assumes "is_hazards v"
  shows "\<exists>hc. validate_hazardous lax f v = Inr hc \<and> holds_hazards v hc"
proof -
  from assms obtain h where v: "v = Some (JObj h)"
    by (cases v rule: is_hazards.cases) auto
  from assms v obtain b1 b2 b3 b4 b5 b6 where
    "validate_bool lax ''has_battery'' (map_of h ''has_battery'') = Inr b1"
    "map_of h ''has_battery'' = Some (JBool b1)"
    "validate_bool lax ''has_mercury'' (map_of h ''has_mercury'') = Inr b2"
    "map_of h ''has_mercury'' = Some (JBool b2)"
    "validate_bool lax ''has_lead'' (map_of h ''has_lead'') = Inr b3"
    "map_of h ''has_lead'' = Some (JBool b3)"
    "validate_bool lax ''has_capacitors'' (map_of h ''has_capacitors'') = Inr b4"
    "map_of h ''has_capacitors'' = Some (JBool b4)"
    "validate_bool lax ''has_toner'' (map_of h ''has_toner'') = Inr b5"
    "map_of h ''has_toner'' = Some (JBool b5)"
    "validate_bool lax ''has_data_storage'' (map_of h ''has_data_storage'') = Inr b6"
    "map_of h ''has_data_storage'' = Some (JBool b6)"
    using validate_bool_typed [where v = "map_of h ''has_battery''" and f = "''has_battery''" and lax = lax]
      validate_bool_typed [where v = "map_of h ''has_mercury''" and f = "''has_mercury''" and lax = lax]
      validate_bool_typed [where v = "map_of h ''has_lead''" and f = "''has_lead''" and lax = lax]
      validate_bool_typed [where v = "map_of h ''has_capacitors''" and f = "''has_capacitors''" and lax = lax]
      validate_bool_typed [where v = "map_of h ''has_toner''" and f = "''has_toner''" and lax = lax]
      validate_bool_typed [where v = "map_of h ''has_data_storage''" and f = "''has_data_storage''" and lax = lax]
    by auto
  then show ?thesis
    by (simp add: v HazardousComponents_init_def bind_result_def holds_hazards_def)
qed

lemma validate_float_exact:
  "is_exact_number v \<Longrightarrow> \<exists>x. validate_float lax f v = Inr x \<and> same_number v x"
  by (cases v rule: is_exact_number.cases) auto

lemma EWasteAnalysis_fields_typed:
  assumes t: "typed_fields kv" and n: "is_exact_number (map_of kv ''confidence_score'')"
  shows "\<exists>a. EWasteAnalysis_fields lax kv = Inr a \<and> holds_fields kv a"
proof -
  from t have
    t1: "is_label ObjectCategory_value ObjectCategory_members (map_of kv ''object_type'')" and
    t2: "is_optional_str (map_of kv ''brand'')" and
    t3: "is_optional_str (map_of kv ''model'')" and
    t4: "is_label ConditionStatus_value ConditionStatus_members (map_of kv ''condition'')" and
    t5: "is_label ShredSafety_value ShredSafety_members (map_of kv ''shred_safety'')" and
    t6: "is_optional_str_list (map_of kv ''safety_notes'')" and
    t7: "is_label ProcessingMethod_value ProcessingMethod_members
           (map_of kv ''primary_processing'')" and
    t8: "is_optional_str_list (map_of kv ''preprocessing_steps'')" and
    t9: "is_str (map_of kv ''processing_notes'')" and
    t10: "is_hazards (map_of kv ''hazardous_components'')" and
    t11: "is_str (map_of kv ''disposal_category'')" and
    t12: "is_str (map_of kv ''observations'')"
    by (simp_all add: typed_fields_def)
  from validate_enum_label [OF t1, where f = "''object_type''"] obtain ot where
    v1: "validate_enum ObjectCategory_value ObjectCategory_members ''object_type''
           (map_of kv ''object_type'') = Inr ot"
    and h1: "map_of kv ''object_type'' = Some (JStr (ObjectCategory_value ot))" by blast
  from validate_optional_str_typed [OF t2, where f = "''brand''"] obtain br where
    v2: "validate_optional_str ''brand'' (map_of kv ''brand'') = Inr br"
    and h2: "holds_optional_str (map_of kv ''brand'') br" by blast
  from validate_optional_str_typed [OF t3, where f = "''model''"] obtain mo where
    v3: "validate_optional_str ''model'' (map_of kv ''model'') = Inr mo"
    and h3: "holds_optional_str (map_of kv ''model'') mo" by blast
  from validate_enum_label [OF t4, where f = "''condition''"] obtain co where
    v4: "validate_enum ConditionStatus_value ConditionStatus_members ''condition''
           (map_of kv ''condition'') = Inr co"
    and h4: "map_of kv ''condition'' = Some (JStr (ConditionStatus_value co))" by blast
  from validate_enum_label [OF t5, where f = "''shred_safety''"] obtain ss where
    v5: "validate_enum ShredSafety_value ShredSafety_members ''shred_safety''
           (map_of kv ''shred_safety'') = Inr ss"
    and h5: "map_of kv ''shred_safety'' = Some (JStr (ShredSafety_value ss))" by blast
  from validate_str_list_typed [OF t6, where f = "''safety_notes''"] obtain sn where
    v6: "validate_str_list ''safety_notes'' (map_of kv ''safety_notes'') = Inr sn"
    and h6: "holds_str_list (map_of kv ''safety_notes'') sn" by blast
  from validate_enum_label [OF t7, where f = "''primary_processing''"] obtain pp where
    v7: "validate_enum ProcessingMethod_value ProcessingMethod_members ''primary_processing''
           (map_of kv ''primary_processing'') = Inr pp"
    and h7: "map_of kv ''primary_processing'' = Some (JStr (ProcessingMethod_value pp))" by blast
  from validate_str_list_typed [OF t8, where f = "''preprocessing_steps''"] obtain ps where
    v8: "validate_str_list ''preprocessing_steps'' (map_of kv ''preprocessing_steps'') = Inr ps"
    and h8: "holds_str_list (map_of kv ''preprocessing_steps'') ps" by blast
  from validate_str_typed [OF t9, where f = "''processing_notes''"] obtain pn where
    v9: "validate_str ''processing_notes'' (map_of kv ''processing_notes'') = Inr pn"
    and h9: "map_of kv ''processing_notes'' = Some (JStr pn)" by blast
  from validate_hazardous_typed [OF t10, where f = "''hazardous_components''" and lax = lax] obtain hc where
    v10: "validate_hazardous lax ''hazardous_components'' (map_of kv ''hazardous_components'') = Inr hc"
    and h10: "holds_hazards (map_of kv ''hazardous_components'') hc" by blast
  from validate_str_typed [OF t11, where f = "''disposal_category''"] obtain dc where
    v11: "validate_str ''disposal_category'' (map_of kv ''disposal_category'') = Inr dc"
    and h11: "map_of kv ''disposal_category'' = Some (JStr dc)" by blast
  from validate_str_typed [OF t12, where f = "''observations''"] obtain ob where
    v12: "validate_str ''observations'' (map_of kv ''observations'') = Inr ob"
    and h12: "map_of kv ''observations'' = Some (JStr ob)" by blast
  from validate_float_exact [OF n, where f = "''confidence_score''" and lax = lax] obtain cs where
    v13: "validate_float lax ''confidence_score'' (map_of kv ''confidence_score'') = Inr cs"
    and h13: "same_number (map_of kv ''confidence_score'') cs" by blast
  let ?a = "\<lparr>object_type = ot, brand = br, model = mo, condition = co,
          shred_safety = ss, safety_notes = sn, primary_processing = pp,
          preprocessing_steps = ps, processing_notes = pn,
          hazardous_components = hc, disposal_category = dc,
          observations = ob, confidence_score = cs\<rparr>"
  have "EWasteAnalysis_fields lax kv = Inr ?a"
    unfolding EWasteAnalysis_fields_def
    by (simp only: v1 v2 v3 v4 v5 v6 v7 v8 v9 v10 v11 v12 v13 bind_result_def sum.case)
  moreover have "holds_fields kv ?a"
    unfolding holds_fields_def
    using h1 h2 h3 h4 h5 h6 h7 h8 h9 h10 h11 h12 h13 by simp
  ultimately show ?thesis by blast
qed

lemma validate_enum_error:
  "validate_enum val members f v = Inl e \<Longrightarrow> \<exists>g i. e = ValidationError g i"
  by (cases "(val, members, f, v)" rule: validate_enum.cases) (auto split: option.splits)

lemma validate_str_error: "validate_str f v = Inl e \<Longrightarrow> \<exists>g i. e = ValidationError g i"
  by (cases "(f, v)" rule: validate_str.cases) auto

lemma validate_optional_str_error:
  "validate_optional_str f v = Inl e \<Longrightarrow> \<exists>g i. e = ValidationError g i"
  by (cases "(f, v)" rule: validate_optional_str.cases) auto

lemma validate_str_list_error:
  "validate_str_list f v = Inl e \<Longrightarrow> \<exists>g i. e = ValidationError g i"
  by (cases "(f, v)" rule: validate_str_list.cases) (auto split: option.splits)

lemma validate_bool_error:
  "validate_bool lax f v = Inl e \<Longrightarrow> \<exists>g i. e = ValidationError g i"
  by (cases "(lax, f, v)" rule: validate_bool.cases) (auto split: option.splits)

lemma validate_float_error:
  "validate_float lax f v = Inl e \<Longrightarrow> \<exists>g i. e = ValidationError g i"
  by (cases "(lax, f, v)" rule: validate_float.cases) (auto split: option.splits sum.splits)

lemma HazardousComponents_init_error:
  "HazardousComponents_init lax h = Inl e \<Longrightarrow> \<exists>g i. e = ValidationError g i"
  unfolding HazardousComponents_init_def bind_result_def
  by (auto split: sum.splits dest: validate_bool_error)

lemma validate_hazardous_error:
  "validate_hazardous lax f v = Inl e \<Longrightarrow> \<exists>g i. e = ValidationError g i"
  by (cases "(lax, f, v)" rule: validate_hazardous.cases) (auto dest: HazardousComponents_init_error)

lemma bind_result_Inl: "bind_result (Inl e) k = Inl e"
  by (simp add: bind_result_def)

lemma is_validation_error_Inl: "is_validation_error (Inl (ValidationError f i))"
  by (simp add: is_validation_error_def)

lemma bind_result_validation:
  assumes "\<And>e. r = Inl e \<Longrightarrow> \<exists>g i. e = ValidationError g i"
    and "\<And>x. is_validation_error (k x)"
  shows "is_validation_error (bind_result r k)"
proof (cases r)
  case (Inl e)
  with assms(1) show ?thesis by (auto simp: bind_result_def is_validation_error_def)
next
  case (Inr x)
  with assms(2) [of x] show ?thesis by (simp add: bind_result_def)
qed

lemma bind_validate_enum:
  "(\<And>x. is_validation_error (k x)) \<Longrightarrow>
     is_validation_error (bind_result (validate_enum val members f v) k)"
  by (rule bind_result_validation) (erule validate_enum_error)

lemma bind_validate_str:
  "(\<And>x. is_validation_error (k x)) \<Longrightarrow>
     is_validation_error (bind_result (validate_str f v) k)"
  by (rule bind_result_validation) (erule validate_str_error)

lemma bind_validate_optional_str:
  "(\<And>x. is_validation_error (k x)) \<Longrightarrow>
     is_validation_error (bind_result (validate_optional_str f v) k)"
  by (rule bind_result_validation) (erule validate_optional_str_error)

lemma bind_validate_str_list:
  "(\<And>x. is_validation_error (k x)) \<Longrightarrow>
     is_validation_error (bind_result (validate_str_list f v) k)"
  by (rule bind_result_validation) (erule validate_str_list_error)

lemma bind_validate_hazardous:
  "(\<And>x. is_validation_error (k x)) \<Longrightarrow>
     is_validation_error (bind_result (validate_hazardous lax f v) k)"
  by (rule bind_result_validation) (erule validate_hazardous_error)

lemmas validation_steps =
  bind_validate_enum bind_validate_str bind_validate_optional_str bind_validate_str_list
  bind_validate_hazardous

lemma EWasteAnalysis_fields_missing:
  assumes "f \<in> set EWasteAnalysis_required" "map_of kv f = None"
  shows "is_validation_error (EWasteAnalysis_fields lax kv)"
proof -
  note s = EWasteAnalysis_fields_def bind_result_Inl is_validation_error_Inl
  from assms(1) have "f = ''object_type''
      \<or> f = ''condition''
      \<or> f = ''shred_safety''
      \<or> f = ''primary_processing''
      \<or> f = ''processing_notes''
      \<or> f = ''hazardous_components''
      \<or> f = ''disposal_category''
      \<or> f = ''observations''
      \<or> f = ''confidence_score''"
    by (simp add: EWasteAnalysis_required_def)
  then show ?thesis
  proof (elim disjE)
    assume "f = ''object_type''"
    with assms(2) show ?thesis by (simp add: s)
  next
    assume "f = ''condition''"
    with assms(2) show ?thesis by (simp add: s) (intro validation_steps, simp add: s)
  next
    assume "f = ''shred_safety''"
    with assms(2) show ?thesis by (simp add: s) (intro validation_steps, simp add: s)
  next
    assume "f = ''primary_processing''"
    with assms(2) show ?thesis by (simp add: s) (intro validation_steps, simp add: s)
  next
    assume "f = ''processing_notes''"
    with assms(2) show ?thesis by (simp add: s) (intro validation_steps, simp add: s)
  next
    assume "f = ''hazardous_components''"
    with assms(2) show ?thesis by (simp add: s) (intro validation_steps, simp add: s)
  next
    assume "f = ''disposal_category''"
    with assms(2) show ?thesis by (simp add: s) (intro validation_steps, simp add: s)
  next
    assume "f = ''observations''"
    with assms(2) show ?thesis by (simp add: s) (intro validation_steps, simp add: s)
  next
    assume "f = ''confidence_score''"
    with assms(2) show ?thesis by (simp add: s) (intro validation_steps, simp add: s)
  qed
qed


section \<open>Construction of the record\<close>

lemma float_of_int_big: "float_of_int 9007199254740993 = Inr (Fin 9007199254740992)"
proof -
  have "round_double 9007199254740993 = Fin 9007199254740992"
  proof (rule round_double_finite(1) [where e = 53 and ee = 1 and m = 4503599627370496])
    show "round_half_even (9007199254740993 / pow2 1) = 4503599627370496"
      by (rule round_half_even_tie) (simp_all add: pow2_def)
  qed (simp_all add: pow2_def)
  then show ?thesis by (simp add: float_of_int_def)
qed

lemma float_of_int_overflow: "float_of_int (2 ^ 1024) = Inl OverflowError"
proof -
  have "round_double (2 ^ 1024) = PosInf"
  proof (rule round_double_overflow [where e = 1024 and ee = 972 and m = "2 ^ 52"])
    show "round_half_even (2 ^ 1024 / pow2 972) = 2 ^ 52"
      by (rule round_half_even_near) (simp add: pow2_def)
  qed (simp_all add: pow2_def)
  then show ?thesis by (simp add: float_of_int_def)
qed

lemma enum_of_value_examples:
  "enum_of_value ObjectCategory_value ObjectCategory_members ''Laptop'' = Some LAPTOP"
  "enum_of_value ConditionStatus_value ConditionStatus_members ''Partially Damaged''
     = Some PARTIALLY_DAMAGED"
  "enum_of_value ShredSafety_value ShredSafety_members ''Do Not Shred'' = Some DO_NOT_SHRED"
  "enum_of_value ProcessingMethod_value ProcessingMethod_members ''Battery Removal Required''
     = Some BATTERY_REMOVAL"
  by (simp_all add: enum_of_value_def ObjectCategory_members_def ConditionStatus_members_def
      ShredSafety_members_def ProcessingMethod_members_def)

lemma example_input_fields:
  "EWasteAnalysis_fields lax (example_input c)
     = bind_result (validate_float lax ''confidence_score'' (Some c))
         (\<lambda>x. Inr (example_record x))"
  by (simp add: EWasteAnalysis_fields_def example_input_def example_record_def
      enum_of_value_examples HazardousComponents_init_def bind_result_def)

lemma example_input_typed: "typed_fields (example_input c)"
  by (simp add: typed_fields_def example_input_def ObjectCategory_members_def
      ConditionStatus_members_def ShredSafety_members_def ProcessingMethod_members_def)

lemma example_input_confidence: "map_of (example_input c) ''confidence_score'' = Some c"
  by (simp add: example_input_def)

lemma example_without_confidence_fields:
  "EWasteAnalysis_fields lax example_without_confidence
     = Inl (ValidationError ''confidence_score'' Field_required)"
  by (simp add: EWasteAnalysis_fields_def example_without_confidence_def example_input_def
      enum_of_value_examples HazardousComponents_init_def bind_result_def)

text \<open>
  Claim C2, as amended. For every dictionary that supplies the required fields
  with values of the declared types (a label of the enumeration, booleans for the
  six hazard flags, strings and lists of strings where declared) and for
  \<^verbatim>\<open>confidence_score\<close> a float, or an integer that converts to a float
  without rounding or overflow, the construction of an \<^verbatim>\<open>EWasteAnalysis\<close>
  succeeds and every field of the record holds the value of the input.
\<close>

theorem EWasteAnalysis_init_round_trip:
  assumes "typed_fields kv" and "is_exact_number (map_of kv ''confidence_score'')"
  shows "\<exists>a. EWasteAnalysis_init lax (JObj kv) = Inr a \<and> holds_fields kv a"
  using EWasteAnalysis_fields_typed [OF assms] by simp

theorem EWasteAnalysis_init_round_trip_witness:
  "typed_fields (example_input (JFloat (float_literal (87 / 100))))
   \<and> is_exact_number (map_of (example_input (JFloat (float_literal (87 / 100))))
        ''confidence_score'')
   \<and> (\<exists>a. EWasteAnalysis_init no_conversions (JObj (example_input (JFloat (float_literal (87 / 100))))) = Inr a
        \<and> holds_fields (example_input (JFloat (float_literal (87 / 100)))) a)"
  using EWasteAnalysis_init_round_trip [of "example_input (JFloat (float_literal (87 / 100)))"
      no_conversions]
  by (simp add: example_input_typed example_input_confidence)

text \<open>
  The claim as stated, with any number for \<^verbatim>\<open>confidence_score\<close>, fails for
  the integer \<open>2 ^ 53 + 1\<close>: the construction succeeds, and the record holds the
  float \<open>2 ^ 53\<close>.
\<close>

theorem EWasteAnalysis_init_rounds_integer:
  "typed_fields (example_input (JInt 9007199254740993))
   \<and> is_number (map_of (example_input (JInt 9007199254740993)) ''confidence_score'')
   \<and> EWasteAnalysis_init no_conversions (JObj (example_input (JInt 9007199254740993)))
       = Inr (example_record (Fin 9007199254740992))
   \<and> \<not> holds_fields (example_input (JInt 9007199254740993))
         (example_record (Fin 9007199254740992))"
  by (simp add: example_input_typed example_input_confidence example_input_fields
      float_of_int_big bind_result_def holds_fields_def)
    (simp add: example_record_def)

text \<open>
  Claim C3. For every dictionary from which a required field of
  \<^verbatim>\<open>EWasteAnalysis\<close> is missing, the construction fails with a validation
  error.
\<close>

theorem EWasteAnalysis_init_missing_required:
  assumes "f \<in> set EWasteAnalysis_required" and "map_of kv f = None"
  shows "is_validation_error (EWasteAnalysis_init lax (JObj kv))"
  using EWasteAnalysis_fields_missing [OF assms] by simp

theorem EWasteAnalysis_init_missing_required_witness:
  "''confidence_score'' \<in> set EWasteAnalysis_required
   \<and> map_of example_without_confidence ''confidence_score'' = None
   \<and> is_validation_error (EWasteAnalysis_init no_conversions (JObj example_without_confidence))"
  using EWasteAnalysis_init_missing_required [of "''confidence_score''" example_without_confidence
      no_conversions]
  by (simp add: EWasteAnalysis_required_def example_without_confidence_def example_input_def)

text \<open>
  Claim C8, as amended. The bound on \<^verbatim>\<open>confidence_score\<close> is not enforced:
  for every dictionary that is well-formed except that \<^verbatim>\<open>confidence_score\<close>
  is a number outside the interval from 0 to 1, a float or an integer that
  converts to a float without rounding or overflow, the construction succeeds and
  the record holds the number.
\<close>

theorem confidence_bound_not_enforced:
  assumes "typed_fields kv" and "is_exact_number (map_of kv ''confidence_score'')"
    and "\<not> in_unit_interval (map_of kv ''confidence_score'')"
  shows "\<exists>a. EWasteAnalysis_init lax (JObj kv) = Inr a
           \<and> same_number (map_of kv ''confidence_score'') (confidence_score a)"
  using EWasteAnalysis_fields_typed [OF assms(1,2)] by (auto simp: holds_fields_def)

theorem confidence_bound_not_enforced_witness:
  "typed_fields (example_input (JFloat (Fin (5 / 2))))
   \<and> is_exact_number (map_of (example_input (JFloat (Fin (5 / 2)))) ''confidence_score'')
   \<and> \<not> in_unit_interval (map_of (example_input (JFloat (Fin (5 / 2)))) ''confidence_score'')
   \<and> (\<exists>a. EWasteAnalysis_init no_conversions (JObj (example_input (JFloat (Fin (5 / 2))))) = Inr a
        \<and> same_number (map_of (example_input (JFloat (Fin (5 / 2)))) ''confidence_score'')
            (confidence_score a))
   \<and> typed_fields (example_input (JInt (- 1)))
   \<and> is_exact_number (map_of (example_input (JInt (- 1))) ''confidence_score'')
   \<and> \<not> in_unit_interval (map_of (example_input (JInt (- 1))) ''confidence_score'')
   \<and> (\<exists>a. EWasteAnalysis_init no_conversions (JObj (example_input (JInt (- 1)))) = Inr a
        \<and> same_number (map_of (example_input (JInt (- 1))) ''confidence_score'')
            (confidence_score a))"
  using confidence_bound_not_enforced [of "example_input (JFloat (Fin (5 / 2)))" no_conversions]
    confidence_bound_not_enforced [of "example_input (JInt (- 1))" no_conversions]
  by (simp add: example_input_typed example_input_confidence float_of_int_minus_1)

text \<open>
  The claim as stated, with any number outside the interval, fails for the
  integer \<open>2 ^ 1024\<close>, which is beyond the doubles: the construction fails,
  with a validation error of the field.
\<close>

theorem EWasteAnalysis_init_integer_overflow:
  "typed_fields (example_input (JInt (2 ^ 1024)))
   \<and> is_number (map_of (example_input (JInt (2 ^ 1024))) ''confidence_score'')
   \<and> \<not> in_unit_interval (map_of (example_input (JInt (2 ^ 1024))) ''confidence_score'')
   \<and> EWasteAnalysis_init no_conversions (JObj (example_input (JInt (2 ^ 1024)))) = Inl (ValidationError ''confidence_score'' Input_invalid)"
  by (simp add: example_input_typed example_input_confidence example_input_fields
      float_of_int_overflow bind_result_def del: power_numeral)
    simp


section \<open>The prompt\<close>

lemma resolve_prompt_readable:
  "fs prompt_file = Readable text \<Longrightarrow> additional_context \<noteq> [] \<Longrightarrow>
     resolve_prompt fs prompt_file additional_context
       = Inr (text @ NL @ NL @ ''Additional context: '' @ additional_context)"
  by (simp add: resolve_prompt_def)

lemma resolve_prompt_not_found:
  "fs prompt_file = Not_found \<Longrightarrow>
     resolve_prompt fs prompt_file additional_context = Inr DEFAULT_PROMPT"
  by (simp add: resolve_prompt_def)

text \<open>
  Claim C4. With a context supplied the prompt sent to the remote model is the
  resolved text followed by the context. The code does so when the prompt file is
  read. When the file is not found it does not: at the path
  \<^verbatim>\<open>prompts/prompt_main.md\<close> of an empty file system, with the context
  \<^verbatim>\<open>Battery is swollen\<close>, the prompt sent is the default prompt alone.
\<close>

theorem analyze_ewaste_fallback_drops_context:
  "resolve_prompt (\<lambda>p. Not_found) ''prompts/prompt_main.md'' ''Battery is swollen''
     = Inr DEFAULT_PROMPT
   \<and> resolve_prompt (\<lambda>p. Not_found) ''prompts/prompt_main.md'' ''Battery is swollen''
     \<noteq> Inr (DEFAULT_PROMPT @ NL @ NL @ ''Additional context: '' @ ''Battery is swollen'')
   \<and> analyze_ewaste lax (\<lambda>p. Not_found) remote image_file ''prompts/prompt_main.md''
        ''Battery is swollen''
     = submit lax remote DEFAULT_PROMPT image_file"
  by (simp add: resolve_prompt_def analyze_ewaste_def bind_result_def NL_def)



section \<open>Lines of a text\<close>

lemma split_lines_not_Nil: "split_lines s \<noteq> []"
  by (induction s) (auto split: list.splits)

lemma split_lines_append_newline:
  "split_lines (xs @ CHR 0x0A # ys) = split_lines xs @ split_lines ys"
proof (induction xs)
  case Nil
  show ?case by simp
next
  case (Cons c xs)
  obtain l ls where "split_lines xs = l # ls"
    using split_lines_not_Nil [of xs] by (cases "split_lines xs") auto
  with Cons show ?case by simp
qed

lemma split_lines_append_NL: "split_lines (xs @ NL @ ys) = split_lines xs @ split_lines ys"
  by (simp add: NL_def split_lines_append_newline)

lemma newlines_Nil: "newlines [] = 0"
  by (simp add: newlines_def)

lemma newlines_Cons: "newlines (c # s) = (if c = CHR 0x0A then 1 else 0) + newlines s"
  by (simp add: newlines_def)

lemma newlines_append: "newlines (xs @ ys) = newlines xs + newlines ys"
  by (simp add: newlines_def)

lemma newlines_concat_replicate: "newlines (concat (replicate n s)) = n * newlines s"
  by (induction n) (simp_all add: newlines_Nil newlines_append)

lemma newlines_replicate: "c \<noteq> CHR 0x0A \<Longrightarrow> newlines (replicate n c) = 0"
  by (induction n) (simp_all add: newlines_Nil newlines_Cons)

lemma newlines_NL: "newlines NL = 1"
  by (simp add: NL_def newlines_def)

lemma split_lines_single: "newlines s = 0 \<Longrightarrow> split_lines s = [s]"
proof (induction s)
  case Nil
  show ?case by simp
next
  case (Cons c s)
  then show ?case by (simp add: newlines_Cons split: if_splits)
qed

lemma length_split_lines: "length (split_lines s) = Suc (newlines s)"
proof (induction s)
  case Nil
  show ?case by (simp add: newlines_Nil)
next
  case (Cons c s)
  obtain l ls where "split_lines s = l # ls"
    using split_lines_not_Nil [of s] by (cases "split_lines s") auto
  with Cons show ?case by (simp add: newlines_Cons)
qed

lemma split_lines_nth_line:
  assumes "newlines l = 0"
  shows "split_lines (p @ NL @ l @ NL @ q) ! Suc (newlines p) = l"
proof -
  have "split_lines (p @ NL @ l @ NL @ q) = split_lines p @ l # split_lines q"
    by (simp add: split_lines_append_NL split_lines_single [OF assms])
  then show ?thesis
    by (simp add: nth_append length_split_lines)
qed

section \<open>The pieces of the report hold no newline\<close>

lemma digit_char_not_newline: "digit_char d \<noteq> CHR 0x0A"
proof -
  have "digit_char d \<in> set ''0123456789''"
    unfolding digit_char_def by (rule nth_mem) simp
  then show ?thesis by auto
qed

lemma newlines_show_nat: "newlines (show_nat n) = 0"
proof (induction n rule: show_nat.induct)
  case (1 n)
  show ?case
  proof (cases "n < 10")
    case True
    then show ?thesis
      by (simp add: show_nat.simps [of n] newlines_Cons newlines_Nil digit_char_not_newline)
  next
    case False
    with 1 show ?thesis
      by (simp add: show_nat.simps [of n] newlines_append newlines_Cons newlines_Nil
          digit_char_not_newline)
  qed
qed

lemma newlines_zfill: "newlines (zfill w s) = newlines s"
  by (simp add: zfill_def newlines_append newlines_replicate)

lemma newlines_strftime: "newlines (strftime t) = 0"
  by (simp add: strftime_def newlines_append newlines_zfill newlines_show_nat newlines_Cons
      newlines_Nil)

lemma newlines_borders:
  "newlines TOP_BORDER = 0" "newlines SIDE_BORDER = 0" "newlines BOTTOM_BORDER = 0"
  "newlines SECTION_RULE = 0" "newlines END_RULE = 0"
  by (simp_all add: TOP_BORDER_def SIDE_BORDER_def BOTTOM_BORDER_def SECTION_RULE_def
      END_RULE_def BOX_BAR_def RULE_BAR_def newlines_append newlines_concat_replicate
      newlines_Cons newlines_Nil)

lemma newlines_titles:
  "newlines ITEM_TITLE = 0" "newlines SAFETY_TITLE = 0" "newlines HAZARD_TITLE = 0"
  "newlines PROCESSING_TITLE = 0" "newlines OBSERVATIONS_TITLE = 0"
  "newlines WARNING_SIGN = 0" "newlines CHECK_MARK = 0"
  by (simp_all add: ITEM_TITLE_def SAFETY_TITLE_def HAZARD_TITLE_def PROCESSING_TITLE_def
      OBSERVATIONS_TITLE_def WARNING_SIGN_def CHECK_MARK_def newlines_append newlines_Cons
      newlines_Nil)

lemma newlines_ObjectCategory:
  "newlines (ObjectCategory_name e) = 0" "newlines (ObjectCategory_value e) = 0"
  by (cases e; simp add: newlines_Cons newlines_Nil)+

lemma newlines_ConditionStatus:
  "newlines (ConditionStatus_name c) = 0" "newlines (ConditionStatus_value c) = 0"
  by (cases c; simp add: newlines_Cons newlines_Nil)+

lemma newlines_format_enum:
  "newlines cls = 0 \<Longrightarrow> newlines name = 0 \<Longrightarrow> newlines val = 0 \<Longrightarrow>
     newlines (format_enum pv cls name val) = 0"
  by (cases pv) (simp_all add: format_enum_def newlines_append newlines_Cons newlines_Nil)

lemma newlines_hazard_mark: "newlines (hazard_mark b) = 0"
  by (simp add: hazard_mark_def newlines_titles newlines_append newlines_Cons newlines_Nil)


section \<open>The lines of the report\<close>

lemma report_identification_lines:
  "\<exists>p q. generate_processing_report pv now a
      = p @ NL @ (''Brand: '' @ or_default (brand a) ''Not identified'')
          @ NL @ (''Model: '' @ or_default (model a) ''Not identified'')
          @ NL @ (''Condition: '' @ format_enum pv ''ConditionStatus''
                    (ConditionStatus_name (condition a)) (ConditionStatus_value (condition a)))
          @ NL @ (''Confidence: '' @ format_percent1 (confidence_score a))
          @ NL @ q
     \<and> newlines p = 8"
proof -
  let ?p = "NL @ TOP_BORDER @ NL
     @ SIDE_BORDER @ ''          E-WASTE SAFETY & PROCESSING REPORT               ''
         @ SIDE_BORDER @ NL
     @ SIDE_BORDER @ ''                '' @ strftime now @ ''                     ''
         @ SIDE_BORDER @ NL
     @ BOTTOM_BORDER @ NL
     @ NL
     @ ITEM_TITLE @ NL
     @ SECTION_RULE @ NL
     @ ''Type: '' @ format_enum pv ''ObjectCategory'' (ObjectCategory_name (object_type a))
                      (ObjectCategory_value (object_type a))"
  let ?q = "NL
     @ SAFETY_TITLE @ NL
     @ SECTION_RULE @ NL
     @ ''Shred Safety: '' @ format_enum pv ''ShredSafety'' (ShredSafety_name (shred_safety a))
                              (ShredSafety_value (shred_safety a)) @ NL
     @ ''Disposal Category: '' @ disposal_category a @ NL
     @ report_safety_notes a @ report_hazards a
     @ report_processing pv a @ report_preprocessing a @ report_observations a"
  have e: "newlines (format_enum pv ''ObjectCategory'' (ObjectCategory_name (object_type a))
             (ObjectCategory_value (object_type a))) = 0"
    by (rule newlines_format_enum) (simp_all add: newlines_ObjectCategory newlines_Cons newlines_Nil)
  have "newlines ?p = 8"
    by (simp add: newlines_append newlines_NL newlines_borders newlines_titles newlines_strftime
        e newlines_Cons newlines_Nil)
  moreover have "generate_processing_report pv now a
      = ?p @ NL @ (''Brand: '' @ or_default (brand a) ''Not identified'')
          @ NL @ (''Model: '' @ or_default (model a) ''Not identified'')
          @ NL @ (''Condition: '' @ format_enum pv ''ConditionStatus''
                    (ConditionStatus_name (condition a)) (ConditionStatus_value (condition a)))
          @ NL @ (''Confidence: '' @ format_percent1 (confidence_score a))
          @ NL @ ?q"
    by (simp add: generate_processing_report_def report_header_def)
  ultimately show ?thesis by blast
qed


lemma report_hazard_lines:
  "split_lines (generate_processing_report pv now a)
     = split_lines (report_header pv now a @ report_safety_notes a)
       @ [HAZARD_TITLE, SECTION_RULE,
          ''Battery: '' @ hazard_mark (has_battery (hazardous_components a)),
          ''Mercury: '' @ hazard_mark (has_mercury (hazardous_components a)),
          ''Lead: '' @ hazard_mark (has_lead (hazardous_components a)),
          ''Capacitors: '' @ hazard_mark (has_capacitors (hazardous_components a)),
          ''Toner/Ink: '' @ hazard_mark (has_toner (hazardous_components a)),
          ''Data Storage: '' @ hazard_mark (has_data_storage (hazardous_components a))]
       @ split_lines (report_processing pv a @ report_preprocessing a @ report_observations a)"
proof -
  let ?h = "hazardous_components a"
  have eq: "generate_processing_report pv now a
      = (report_header pv now a @ report_safety_notes a)
        @ NL @ HAZARD_TITLE
        @ NL @ SECTION_RULE
        @ NL @ (''Battery: '' @ hazard_mark (has_battery ?h))
        @ NL @ (''Mercury: '' @ hazard_mark (has_mercury ?h))
        @ NL @ (''Lead: '' @ hazard_mark (has_lead ?h))
        @ NL @ (''Capacitors: '' @ hazard_mark (has_capacitors ?h))
        @ NL @ (''Toner/Ink: '' @ hazard_mark (has_toner ?h))
        @ NL @ (''Data Storage: '' @ hazard_mark (has_data_storage ?h))
        @ NL @ (report_processing pv a @ report_preprocessing a @ report_observations a)"
    by (simp add: generate_processing_report_def report_hazards_def)
  have l: "split_lines (s @ hazard_mark b) = [s @ hazard_mark b]" if "newlines s = 0" for s b
    by (rule split_lines_single) (simp add: newlines_append newlines_hazard_mark that)
  have ls:
    "split_lines (''Battery: '' @ hazard_mark (has_battery ?h))
       = [''Battery: '' @ hazard_mark (has_battery ?h)]"
    "split_lines (''Mercury: '' @ hazard_mark (has_mercury ?h))
       = [''Mercury: '' @ hazard_mark (has_mercury ?h)]"
    "split_lines (''Lead: '' @ hazard_mark (has_lead ?h))
       = [''Lead: '' @ hazard_mark (has_lead ?h)]"
    "split_lines (''Capacitors: '' @ hazard_mark (has_capacitors ?h))
       = [''Capacitors: '' @ hazard_mark (has_capacitors ?h)]"
    "split_lines (''Toner/Ink: '' @ hazard_mark (has_toner ?h))
       = [''Toner/Ink: '' @ hazard_mark (has_toner ?h)]"
    "split_lines (''Data Storage: '' @ hazard_mark (has_data_storage ?h))
       = [''Data Storage: '' @ hazard_mark (has_data_storage ?h)]"
    by (rule l, simp add: newlines_Cons newlines_Nil)+
  have t: "split_lines HAZARD_TITLE = [HAZARD_TITLE]" "split_lines SECTION_RULE = [SECTION_RULE]"
    by (simp_all add: split_lines_single newlines_titles newlines_borders)
  have "split_lines (generate_processing_report pv now a)
      = split_lines (report_header pv now a @ report_safety_notes a)
        @ [HAZARD_TITLE] @ [SECTION_RULE]
        @ [''Battery: '' @ hazard_mark (has_battery ?h)]
        @ [''Mercury: '' @ hazard_mark (has_mercury ?h)]
        @ [''Lead: '' @ hazard_mark (has_lead ?h)]
        @ [''Capacitors: '' @ hazard_mark (has_capacitors ?h)]
        @ [''Toner/Ink: '' @ hazard_mark (has_toner ?h)]
        @ [''Data Storage: '' @ hazard_mark (has_data_storage ?h)]
        @ split_lines (report_processing pv a @ report_preprocessing a @ report_observations a)"
    unfolding eq by (simp only: split_lines_append_NL ls t)
  then show ?thesis by simp
qed

text \<open>
  Claim C6. For every record whose hazardous components have
  \<^verbatim>\<open>has_battery\<close> true and the five other flags false, the hazard lines of
  the report, which follow the title and the rule of the hazard section, are the
  six lines below: exactly one ends with the positive mark (YES) and exactly five
  end with the negative mark (No).
\<close>

theorem battery_only_hazard_lines:
  assumes "has_battery (hazardous_components a)"
    and "\<not> has_mercury (hazardous_components a)"
    and "\<not> has_lead (hazardous_components a)"
    and "\<not> has_capacitors (hazardous_components a)"
    and "\<not> has_toner (hazardous_components a)"
    and "\<not> has_data_storage (hazardous_components a)"
  shows "split_lines (generate_processing_report pv now a)
     = split_lines (report_header pv now a @ report_safety_notes a)
       @ [HAZARD_TITLE, SECTION_RULE]
       @ [''Battery: '' @ WARNING_SIGN @ '' YES'',
          ''Mercury: '' @ CHECK_MARK @ '' No'',
          ''Lead: '' @ CHECK_MARK @ '' No'',
          ''Capacitors: '' @ CHECK_MARK @ '' No'',
          ''Toner/Ink: '' @ CHECK_MARK @ '' No'',
          ''Data Storage: '' @ CHECK_MARK @ '' No'']
       @ split_lines (report_processing pv a @ report_preprocessing a @ report_observations a)
     \<and> marked (WARNING_SIGN @ '' YES'')
         [''Battery: '' @ WARNING_SIGN @ '' YES'',
          ''Mercury: '' @ CHECK_MARK @ '' No'',
          ''Lead: '' @ CHECK_MARK @ '' No'',
          ''Capacitors: '' @ CHECK_MARK @ '' No'',
          ''Toner/Ink: '' @ CHECK_MARK @ '' No'',
          ''Data Storage: '' @ CHECK_MARK @ '' No''] = 1
     \<and> marked (CHECK_MARK @ '' No'')
         [''Battery: '' @ WARNING_SIGN @ '' YES'',
          ''Mercury: '' @ CHECK_MARK @ '' No'',
          ''Lead: '' @ CHECK_MARK @ '' No'',
          ''Capacitors: '' @ CHECK_MARK @ '' No'',
          ''Toner/Ink: '' @ CHECK_MARK @ '' No'',
          ''Data Storage: '' @ CHECK_MARK @ '' No''] = 5"
proof (intro conjI)
  show "split_lines (generate_processing_report pv now a)
     = split_lines (report_header pv now a @ report_safety_notes a)
       @ [HAZARD_TITLE, SECTION_RULE]
       @ [''Battery: '' @ WARNING_SIGN @ '' YES'',
          ''Mercury: '' @ CHECK_MARK @ '' No'',
          ''Lead: '' @ CHECK_MARK @ '' No'',
          ''Capacitors: '' @ CHECK_MARK @ '' No'',
          ''Toner/Ink: '' @ CHECK_MARK @ '' No'',
          ''Data Storage: '' @ CHECK_MARK @ '' No'']
       @ split_lines (report_processing pv a @ report_preprocessing a @ report_observations a)"
    using assms by (simp add: report_hazard_lines hazard_mark_def)
qed (simp_all add: marked_def ends_with_def WARNING_SIGN_def CHECK_MARK_def)

theorem battery_only_hazard_lines_witness:
  "has_battery (hazardous_components (example_record (Fin (1 / 2))))
   \<and> \<not> has_mercury (hazardous_components (example_record (Fin (1 / 2))))
   \<and> \<not> has_lead (hazardous_components (example_record (Fin (1 / 2))))
   \<and> \<not> has_capacitors (hazardous_components (example_record (Fin (1 / 2))))
   \<and> \<not> has_toner (hazardous_components (example_record (Fin (1 / 2))))
   \<and> \<not> has_data_storage (hazardous_components (example_record (Fin (1 / 2))))
   \<and> split_lines (generate_processing_report Before_3_11 example_time
        (example_record (Fin (1 / 2))))
     = split_lines (report_header Before_3_11 example_time (example_record (Fin (1 / 2)))
         @ report_safety_notes (example_record (Fin (1 / 2))))
       @ [HAZARD_TITLE, SECTION_RULE]
       @ [''Battery: '' @ WARNING_SIGN @ '' YES'',
          ''Mercury: '' @ CHECK_MARK @ '' No'',
          ''Lead: '' @ CHECK_MARK @ '' No'',
          ''Capacitors: '' @ CHECK_MARK @ '' No'',
          ''Toner/Ink: '' @ CHECK_MARK @ '' No'',
          ''Data Storage: '' @ CHECK_MARK @ '' No'']
       @ split_lines (report_processing Before_3_11 (example_record (Fin (1 / 2)))
           @ report_preprocessing (example_record (Fin (1 / 2)))
           @ report_observations (example_record (Fin (1 / 2))))"
  using battery_only_hazard_lines [of "example_record (Fin (1 / 2))" Before_3_11 example_time]
  by (simp add: example_record_def)

text \<open>
  Claim C7. For a record whose \<^verbatim>\<open>confidence_score\<close> is \<^verbatim>\<open>0.87\<close>, the
  confidence is formatted as \<^verbatim>\<open>87.0%\<close>, and the Confidence line of the report,
  the line after the lines of type, brand, model and condition, is
  \<^verbatim>\<open>Confidence: 87.0%\<close>.
\<close>

theorem confidence_087_rendering:
  assumes "confidence_score a = float_literal (87 / 100)"
  shows "format_percent1 (confidence_score a) = ''87.0%''
     \<and> split_lines (generate_processing_report pv now a)
         ! (12 + newlines (or_default (brand a) ''Not identified'')
               + newlines (or_default (model a) ''Not identified''))
       = ''Confidence: 87.0%''"
proof
  show f: "format_percent1 (confidence_score a) = ''87.0%''"
    by (simp only: assms format_087)
  let ?b = "''Brand: '' @ or_default (brand a) ''Not identified''"
  let ?m = "''Model: '' @ or_default (model a) ''Not identified''"
  let ?c = "''Condition: '' @ format_enum pv ''ConditionStatus''
              (ConditionStatus_name (condition a)) (ConditionStatus_value (condition a))"
  from report_identification_lines [of pv now a] obtain p q where
    eq: "generate_processing_report pv now a
           = p @ NL @ ?b @ NL @ ?m @ NL @ ?c @ NL
               @ (''Confidence: '' @ format_percent1 (confidence_score a)) @ NL @ q"
    and p: "newlines p = 8"
    by blast
  have c: "newlines ?c = 0"
    using newlines_format_enum [of "''ConditionStatus''" "ConditionStatus_name (condition a)"
        "ConditionStatus_value (condition a)" pv]
    by (simp add: newlines_ConditionStatus newlines_append newlines_Cons newlines_Nil)
  have eq': "generate_processing_report pv now a
           = (p @ NL @ ?b @ NL @ ?m @ NL @ ?c) @ NL @ ''Confidence: 87.0%'' @ NL @ q"
    unfolding eq f by simp
  have n: "Suc (newlines (p @ NL @ ?b @ NL @ ?m @ NL @ ?c))
             = 12 + newlines (or_default (brand a) ''Not identified'')
                 + newlines (or_default (model a) ''Not identified'')"
    using c by (simp add: newlines_append newlines_NL p newlines_Cons newlines_Nil)
  have "split_lines ((p @ NL @ ?b @ NL @ ?m @ NL @ ?c) @ NL @ ''Confidence: 87.0%'' @ NL @ q)
          ! Suc (newlines (p @ NL @ ?b @ NL @ ?m @ NL @ ?c)) = ''Confidence: 87.0%''"
    by (rule split_lines_nth_line) (simp add: newlines_Cons newlines_Nil)
  then show "split_lines (generate_processing_report pv now a)
         ! (12 + newlines (or_default (brand a) ''Not identified'')
               + newlines (or_default (model a) ''Not identified''))
       = ''Confidence: 87.0%''"
    by (simp only: eq' n)
qed

theorem confidence_087_rendering_witness:
  "confidence_score (example_record (float_literal (87 / 100))) = float_literal (87 / 100)
   \<and> format_percent1 (confidence_score (example_record (float_literal (87 / 100)))) = ''87.0%''
   \<and> split_lines (generate_processing_report From_3_11 example_time
        (example_record (float_literal (87 / 100)))) ! 12 = ''Confidence: 87.0%''"
  using confidence_087_rendering [of "example_record (float_literal (87 / 100))" From_3_11
      example_time]
  by (simp add: example_record_def newlines_Cons newlines_Nil)



text \<open>
  Claim C10. For every record whose brand is absent or the empty string, the
  Brand line of the report is \<^verbatim>\<open>Brand: Not identified\<close>; for every record
  whose model is absent or the empty string, the Model line, the line after the
  brand, is \<^verbatim>\<open>Model: Not identified\<close>. The empty string is rendered as the
  absent value is.
\<close>

theorem absent_or_empty_brand_model:
  "(brand a = None \<or> brand a = Some [] \<longrightarrow>
      split_lines (generate_processing_report pv now a) ! 9 = ''Brand: Not identified'')
   \<and> (model a = None \<or> model a = Some [] \<longrightarrow>
      split_lines (generate_processing_report pv now a)
        ! (10 + newlines (or_default (brand a) ''Not identified''))
      = ''Model: Not identified'')"
proof -
  let ?b = "''Brand: '' @ or_default (brand a) ''Not identified''"
  let ?m = "''Model: '' @ or_default (model a) ''Not identified''"
  from report_identification_lines [of pv now a] obtain p q where
    eq: "generate_processing_report pv now a = p @ NL @ ?b @ NL @ ?m @ NL @ q"
    and p: "newlines p = 8"
    by blast
  have b: "split_lines (generate_processing_report pv now a) ! 9 = ''Brand: Not identified''"
    if "brand a = None \<or> brand a = Some []"
  proof -
    from that have d: "or_default (brand a) ''Not identified'' = ''Not identified''" by auto
    have "split_lines (p @ NL @ ''Brand: Not identified'' @ NL @ ?m @ NL @ q) ! Suc (newlines p)
            = ''Brand: Not identified''"
      by (rule split_lines_nth_line) (simp add: newlines_Cons newlines_Nil)
    then show ?thesis unfolding eq d p by simp
  qed
  have m: "split_lines (generate_processing_report pv now a)
        ! (10 + newlines (or_default (brand a) ''Not identified'')) = ''Model: Not identified''"
    if "model a = None \<or> model a = Some []"
  proof -
    from that have d: "or_default (model a) ''Not identified'' = ''Not identified''" by auto
    have eq': "generate_processing_report pv now a
                 = (p @ NL @ ?b) @ NL @ ''Model: Not identified'' @ NL @ q"
      unfolding eq d by simp
    have n: "Suc (newlines (p @ NL @ ?b))
               = 10 + newlines (or_default (brand a) ''Not identified'')"
      by (simp add: newlines_append newlines_NL p newlines_Cons newlines_Nil)
    have "split_lines ((p @ NL @ ?b) @ NL @ ''Model: Not identified'' @ NL @ q)
            ! Suc (newlines (p @ NL @ ?b)) = ''Model: Not identified''"
      by (rule split_lines_nth_line) (simp add: newlines_Cons newlines_Nil)
    then show ?thesis by (simp only: eq' n)
  qed
  from b m show ?thesis by blast
qed

theorem absent_or_empty_brand_model_witness:
  "(brand (example_record NaN\<lparr>model := Some []\<rparr>) = None
      \<or> brand (example_record NaN\<lparr>model := Some []\<rparr>) = Some [])
   \<and> (model (example_record NaN\<lparr>model := Some []\<rparr>) = None
      \<or> model (example_record NaN\<lparr>model := Some []\<rparr>) = Some [])
   \<and> split_lines (generate_processing_report Before_3_11 example_time
        (example_record NaN\<lparr>model := Some []\<rparr>)) ! 9 = ''Brand: Not identified''
   \<and> split_lines (generate_processing_report Before_3_11 example_time
        (example_record NaN\<lparr>model := Some []\<rparr>)) ! 10 = ''Model: Not identified''"
  using absent_or_empty_brand_model [of "example_record NaN\<lparr>model := Some []\<rparr>" Before_3_11
      example_time]
  by (simp add: example_record_def newlines_Cons newlines_Nil)


end
